theory Spec2Isabelle
  imports Main "HOL-Library.AList"
begin

section \<open>CuttleFS: block manager, page cache and fsync policies\<close>

text \<open>
  A shallow embedding of the data path of CuttleFS (\<^verbatim>\<open>cuttlefs/failseq.py\<close>,
  \<^verbatim>\<open>cuttlefs/block_manager.py\<close>, \<^verbatim>\<open>cuttlefs/page.py\<close>, \<^verbatim>\<open>cuttlefs/fsyncs.py\<close>,
  \<^verbatim>\<open>cuttlefs/cuttlefs.py\<close>).

  \<^item> Python integers are \<open>int\<close>; block numbers and positions in the backing file are
    \<open>nat\<close> (the allocator counts up from 0 and only hands out what it counted or what
    was given back to it).
  \<^item> \<open>bytes\<close> and \<open>bytearray\<close> are \<open>char list\<close> (an Isabelle \<open>char\<close> is one byte).
  \<^item> A \<open>dict\<close> is an association list with distinct keys in insertion order:
    \<open>map_of\<close> is \<open>get\<close>, \<open>AList.update\<close> is item assignment (in place for a key that
    is present, at the end for a new key), \<open>AList.delete\<close> is \<open>pop\<close>.
  \<^item> A Python \<open>set\<close> of file descriptors is an \<open>int set\<close>.
  \<^item> \<open>Page\<close> objects are shared between \<open>MemInode.offset_to_page\<close> and the page lists
    handed to the fsync policies, and are mutated through both; they live in an explicit
    store \<open>heap\<close> addressed by references.
  \<^item> Every \<open>raise\<close> and failing \<open>assert\<close> is a value \<open>Inl e\<close>.
\<close>

subsection \<open>Constants and errors\<close>

text \<open>
  Modelled from the spec: \<^verbatim>\<open>cuttlefs/constants.py\<close> is not among the sources. Section 3 of
  the specification fixes PAGE\_SIZE = 4096 and SECTOR\_SIZE = 512; \<open>bwrite\<close> itself
  hard-codes 512 for the sector slices.
\<close>

definition PAGE_SZ :: nat where
  "PAGE_SZ = 4096"

definition SECTOR_SZ :: nat where
  "SECTOR_SZ = 512"

definition EIO :: int where
  "EIO = 5"

datatype error =
    AssertionError
  | AttributeError
  | NameError
  | KeyError
  | IndexError
  | TypeError
  | ValueError
  | FileNotFoundError

type_synonym bytes = "char list"

definition zero_byte :: char where
  "zero_byte = CHR 0x00"

subsection \<open>failseq.py\<close>

record FailSequence =
  seq :: string
  idx :: int
  end_idx :: int
  termchar :: char

text \<open>Python indexing \<open>s[i]\<close>: a negative index counts from the end, out of range raises.\<close>

definition py_index :: "'a list \<Rightarrow> int \<Rightarrow> error + 'a" where
  "py_index xs i =
     (if 0 \<le> i \<and> i < int (length xs) then Inr (xs ! nat i)
      else if i < 0 \<and> - int (length xs) \<le> i then Inr (xs ! nat (int (length xs) + i))
      else Inl IndexError)"

text \<open>\<open>str.lower\<close> on the four letters a sequence may hold.\<close>

definition lower :: "char \<Rightarrow> char" where
  "lower c = (if c = CHR ''X'' then CHR ''x'' else if c = CHR ''W'' then CHR ''w'' else c)"

text \<open>
  \<open>_validate_seq\<close>: the first check calls \<open>errors.append\<close> with two arguments, which raises
  \<open>TypeError\<close> on the spot; \<open>self.seq[-1]\<close> raises \<open>IndexError\<close> on the empty string.
\<close>

definition validate_seq :: "string \<Rightarrow> error + unit" where
  "validate_seq s =
     (if set s - {CHR ''x'', CHR ''w'', CHR ''W'', CHR ''X''} \<noteq> {} then Inl TypeError
      else
        let errors1 = (if set (butlast s) \<noteq> {} \<and> set (butlast s) - {CHR ''x'', CHR ''w''} \<noteq> {}
                       then [''Only last character can be capitalized''] else [])
        in case py_index s (- 1) of
             Inl e \<Rightarrow> Inl e
           | Inr l \<Rightarrow>
               let errors2 = (if l \<noteq> CHR ''X'' \<and> l \<noteq> CHR ''W''
                              then errors1 @ [''Sequence must terminate with X or W'']
                              else errors1)
               in if errors2 = [] then Inr () else Inl ValueError)"

definition FailSequence_init :: "string \<Rightarrow> error + FailSequence" where
  "FailSequence_init s =
     (case validate_seq s of
        Inl e \<Rightarrow> Inl e
      | Inr _ \<Rightarrow>
          (case py_index s (- 1) of
             Inl e \<Rightarrow> Inl e
           | Inr l \<Rightarrow>
               Inr \<lparr>seq = s, idx = - 1, end_idx = int (length s) - 1, termchar = lower l\<rparr>))"

definition copy :: "FailSequence \<Rightarrow> error + FailSequence" where
  "copy fs =
     (case FailSequence_init (seq fs) of
        Inl e \<Rightarrow> Inl e
      | Inr c \<Rightarrow> Inr (c\<lparr>idx := idx fs\<rparr>))"

text \<open>\<open>FailSequence.next\<close>: the advanced oracle and the outcome.\<close>

definition "next" :: "FailSequence \<Rightarrow> error + (FailSequence \<times> char)" where
  "next fs =
     (let fs' = fs\<lparr>idx := idx fs + 1\<rparr>
      in if idx fs' \<ge> end_idx fs' then Inr (fs', termchar fs')
         else (case py_index (seq fs') (idx fs') of
                 Inl e \<Rightarrow> Inl e
               | Inr c \<Rightarrow> Inr (fs', c)))"

subsection \<open>block\_manager.py\<close>

text \<open>The record that \<open>bwrite\<close> logs for every attempt (\<open>self.log.info("BWRITE ...")\<close>).\<close>

record bwrite_msg =
  msg_block :: nat
  msg_path :: string
  msg_offset :: int
  bio_success :: bool

text \<open>
  \<open>backing\<close> is the content of the backing file behind \<open>self.fp\<close>; \<open>bwrite_log\<close> is the
  sequence of BWRITE records written to the log.
\<close>

record BlockManager =
  size_bm :: nat
  free_list :: "nat list"
  largest_block_num :: nat
  faulty_paths :: "(string \<times> (int \<times> FailSequence) list) list"
  backing :: bytes
  bwrite_log :: "bwrite_msg list"

text \<open>
  \<open>os.pwrite\<close> and \<open>os.pread\<close> on a regular file: a write beyond the end fills the gap
  with zero bytes; a read stops at the end of the file.
\<close>

definition pwrite :: "bytes \<Rightarrow> bytes \<Rightarrow> nat \<Rightarrow> bytes" where
  "pwrite f d off =
     (let f' = f @ replicate (off - length f) zero_byte
      in take off f' @ d @ drop (off + length d) f')"

definition pread :: "bytes \<Rightarrow> nat \<Rightarrow> nat \<Rightarrow> bytes" where
  "pread f n off = take n (drop off f)"

definition bread :: "BlockManager \<Rightarrow> nat \<Rightarrow> error + bytes" where
  "bread bm bnum =
     (let offset = bnum * PAGE_SZ
      in if \<not> offset < size_bm bm then Inl AssertionError
         else Inr (pread (backing bm) PAGE_SZ offset))"

text \<open>The loop state of \<open>bwrite\<close>.\<close>

record bwrite_state =
  offset_seq_map :: "(int \<times> FailSequence) list"
  fp :: bytes
  success :: bool
  bfile_offset :: nat
  file_offset :: int

text \<open>One iteration of \<open>for i in range(PAGE_SZ // SECTOR_SZ)\<close>.\<close>

definition bwrite_sector :: "bytes \<Rightarrow> nat \<Rightarrow> bwrite_state \<Rightarrow> error + bwrite_state" where
  "bwrite_sector data i s =
     (let wr = (\<lambda>s'. s'\<lparr>fp := pwrite (fp s') (take ((i + 1) * 512 - i * 512) (drop (i * 512) data))
                                   (bfile_offset s')\<rparr>);
          adv = (\<lambda>s'. s'\<lparr>bfile_offset := bfile_offset s' + 512,
                          file_offset := file_offset s' + 512\<rparr>)
      in case map_of (offset_seq_map s) (file_offset s) of
           None \<Rightarrow> Inr (adv (wr s))
         | Some sq \<Rightarrow>
             (case next sq of
                Inl e \<Rightarrow> Inl e
              | Inr (sq', c) \<Rightarrow>
                  let s1 = s\<lparr>offset_seq_map := AList.update (file_offset s) sq' (offset_seq_map s)\<rparr>
                  in if c = CHR ''x'' then Inr (adv (s1\<lparr>success := False\<rparr>))
                     else Inr (adv (wr s1))))"

fun bwrite_sectors :: "bytes \<Rightarrow> nat list \<Rightarrow> bwrite_state \<Rightarrow> error + bwrite_state" where
  "bwrite_sectors data [] s = Inr s"
| "bwrite_sectors data (i # is) s =
     (case bwrite_sector data i s of
        Inl e \<Rightarrow> Inl e
      | Inr s' \<Rightarrow> bwrite_sectors data is s')"

text \<open>
  \<open>bwrite(bnum, data, ref)\<close> with \<open>ref = (path, offset)\<close>. The sequences found through
  \<open>self.faulty_paths.get(path, {})\<close> are advanced in place; when the path has no entry the
  default dictionary is a temporary and \<open>faulty_paths\<close> stays as it is.
\<close>

definition bwrite :: "BlockManager \<Rightarrow> nat \<Rightarrow> bytes \<Rightarrow> string \<times> int \<Rightarrow> error + (BlockManager \<times> bool)" where
  "bwrite bm bnum data ref =
     (if length data \<noteq> PAGE_SZ then Inl AssertionError
      else
        let path = fst ref; offset = snd ref;
            s0 = \<lparr>offset_seq_map = (case map_of (faulty_paths bm) path of None \<Rightarrow> [] | Some m \<Rightarrow> m),
                  fp = backing bm, success = True,
                  bfile_offset = bnum * PAGE_SZ, file_offset = offset\<rparr>
        in case bwrite_sectors data [0..<PAGE_SZ div SECTOR_SZ] s0 of
             Inl e \<Rightarrow> Inl e
           | Inr s \<Rightarrow>
               Inr (bm\<lparr>faulty_paths :=
                          (case map_of (faulty_paths bm) path of
                             None \<Rightarrow> faulty_paths bm
                           | Some _ \<Rightarrow> AList.update path (offset_seq_map s) (faulty_paths bm)),
                        backing := fp s,
                        bwrite_log := bwrite_log bm @
                          [\<lparr>msg_block = bnum, msg_path = path, msg_offset = offset,
                            bio_success = success s\<rparr>],
                        size_bm := (if bfile_offset s \<ge> size_bm bm then bfile_offset s
                                    else size_bm bm)\<rparr>,
                    success s))"

definition alloc_block :: "BlockManager \<Rightarrow> BlockManager \<times> nat" where
  "alloc_block bm =
     (if length (free_list bm) > 0
      then (bm\<lparr>free_list := butlast (free_list bm)\<rparr>, last (free_list bm))
      else (bm\<lparr>largest_block_num := largest_block_num bm + 1\<rparr>, largest_block_num bm))"

definition dealloc_block :: "BlockManager \<Rightarrow> nat \<Rightarrow> BlockManager" where
  "dealloc_block bm block = bm\<lparr>free_list := free_list bm @ [block]\<rparr>"

subsection \<open>page.py\<close>

record Page =
  inode_pg :: int
  offset :: int
  content :: bytes
  flag_dirty :: bool

definition Page_init :: "int \<Rightarrow> int \<Rightarrow> Page" where
  "Page_init ino off =
     \<lparr>inode_pg = ino, offset = off, content = replicate PAGE_SZ zero_byte, flag_dirty = False\<rparr>"

text \<open>
  Time stamps (\<open>time.time()\<close>, \<open>atime\<close>, \<open>mtime\<close>) are only stored, copied and compared;
  they are integers here.
\<close>

type_synonym timestamp = int

text \<open>
  The per-file metadata record kept as JSON at \<open>realpath\<close>. \<open>json.dump\<close> turns the integer
  keys of \<open>offset_to_block\<close> into strings and the loaders turn them back with \<open>int\<close>, in
  the same order: the record holds the dictionary itself.
\<close>

record disk_meta =
  meta_size :: int
  meta_atime :: timestamp
  meta_mtime :: timestamp
  meta_offset_to_block :: "(int \<times> nat) list"

text \<open>A regular file of the host file system: its inode number and its metadata record.\<close>

record host_file =
  st_ino :: int
  meta :: disk_meta

text \<open>\<open>offset_to_page\<close> maps a page offset to the reference of its \<open>Page\<close> in the store.\<close>

record MemInode =
  inode :: int
  path :: string
  realpath :: string
  offset_to_block :: "(int \<times> nat) list"
  atime :: timestamp
  mtime :: timestamp
  size_mi :: int
  offset_to_page :: "(int \<times> nat) list"

definition MemInode_init ::
  "(string \<times> host_file) list \<Rightarrow> int \<Rightarrow> string \<Rightarrow> string \<Rightarrow> error + MemInode" where
  "MemInode_init hfs ino p rp =
     (case map_of hfs rp of
        None \<Rightarrow> Inl FileNotFoundError
      | Some f \<Rightarrow>
          Inr \<lparr>inode = ino, path = p, realpath = rp,
               offset_to_block = meta_offset_to_block (meta f),
               atime = meta_atime (meta f), mtime = meta_mtime (meta f),
               size_mi = meta_size (meta f), offset_to_page = []\<rparr>)"

subsection \<open>The state of a mounted file system\<close>

datatype fsync_class = Ext4Ordered | XFS | Ext4Data | Btrfs

record FDInfo =
  inode_fd :: int
  path_fd :: string

text \<open>
  One record for the \<open>CuttleFS\<close> object and what it owns: the block manager, the page cache
  (\<open>PageCache.minode_map\<close>), the fd tables, the fsync policy object (its class and its
  \<open>failed_inodes_fd_map\<close>), the store of \<open>Page\<close> objects with the next unused reference,
  and the metadata files of the host file system with the next unused host inode number.
\<close>

record CuttleFS =
  root :: string
  to_be_deleted :: string
  block_manager :: BlockManager
  page_cache :: "(int \<times> MemInode) list"
  last_fd_alloced :: int
  fd_info_map :: "(int \<times> FDInfo) list"
  inode_to_open_fds_map :: "(int \<times> int set) list"
  sync_fds :: "int set"
  fsync_cls :: fsync_class
  failed_inodes_fd_map :: "(int \<times> int set) list"
  heap :: "nat \<Rightarrow> Page"
  next_ref :: nat
  host :: "(string \<times> host_file) list"
  host_next_ino :: int

definition get_dirty_pages :: "CuttleFS \<Rightarrow> MemInode \<Rightarrow> nat list" where
  "get_dirty_pages st m = filter (\<lambda>r. flag_dirty (heap st r)) (map snd (offset_to_page m))"

subsection \<open>fsyncs.py: the notification bookkeeping\<close>

definition should_notify_fd :: "CuttleFS \<Rightarrow> int \<Rightarrow> int \<Rightarrow> bool" where
  "should_notify_fd st fd ino =
     (case map_of (failed_inodes_fd_map st) ino of
        None \<Rightarrow> False
      | Some failed_fds \<Rightarrow> if failed_fds = {} then True else fd \<in> failed_fds)"

definition add_fds_to_notify :: "CuttleFS \<Rightarrow> int \<Rightarrow> CuttleFS" where
  "add_fds_to_notify st ino =
     (let all_open_fds = (case map_of (inode_to_open_fds_map st) ino of
                            None \<Rightarrow> {} | Some fds \<Rightarrow> fds);
          fd_set = (case map_of (failed_inodes_fd_map st) ino of
                      None \<Rightarrow> {} | Some fds \<Rightarrow> fds)
      in st\<lparr>failed_inodes_fd_map :=
              AList.update ino (fd_set \<union> all_open_fds) (failed_inodes_fd_map st)\<rparr>)"

definition mark_fd_notified :: "CuttleFS \<Rightarrow> int \<Rightarrow> int \<Rightarrow> CuttleFS" where
  "mark_fd_notified st fd ino =
     (case map_of (failed_inodes_fd_map st) ino of
        None \<Rightarrow> st
      | Some failed_fds \<Rightarrow>
          if failed_fds - {fd} = {}
          then st\<lparr>failed_inodes_fd_map := AList.delete ino (failed_inodes_fd_map st)\<rparr>
          else st\<lparr>failed_inodes_fd_map :=
                    AList.update ino (failed_fds - {fd}) (failed_inodes_fd_map st)\<rparr>)"


subsection \<open>fsyncs.py: writing pages and metadata\<close>

text \<open>
  \<open>sync_meta\<close> (the same text in \<open>GenericFsync\<close> and \<open>Btrfs\<close>): \<open>open(realpath, 'w')\<close>
  rewrites the file, or creates it under a new host inode number when it is gone.
\<close>

definition sync_meta :: "CuttleFS \<Rightarrow> MemInode \<Rightarrow> CuttleFS" where
  "sync_meta st m =
     (let dm = \<lparr>meta_size = size_mi m, meta_atime = atime m, meta_mtime = mtime m,
                meta_offset_to_block = offset_to_block m\<rparr>
      in case map_of (host st) (realpath m) of
           Some f \<Rightarrow> st\<lparr>host := AList.update (realpath m) (f\<lparr>meta := dm\<rparr>) (host st)\<rparr>
         | None \<Rightarrow>
             st\<lparr>host := AList.update (realpath m) \<lparr>st_ino = host_next_ino st, meta = dm\<rparr> (host st),
                host_next_ino := host_next_ino st + 1\<rparr>)"

text \<open>
  \<open>GenericFsync.sync_pages\<close>, the loop with its accumulator \<open>ret\<close>. The only statement of
  the body that can raise is the \<open>assert\<close> at the head of \<open>bwrite\<close>; what the body did
  before it stays done, so the error result carries the state and the inode as they are
  when the exception leaves the loop.
\<close>

fun GenericFsync_sync_loop ::
  "CuttleFS \<Rightarrow> MemInode \<Rightarrow> nat list \<Rightarrow> int \<Rightarrow>
     (error \<times> CuttleFS \<times> MemInode) + (CuttleFS \<times> MemInode \<times> int)" where
  "GenericFsync_sync_loop st m [] ret = Inr (st, m, ret)"
| "GenericFsync_sync_loop st m (r # rs) ret =
     (let dirty_page = heap st r
      in if \<not> flag_dirty dirty_page then GenericFsync_sync_loop st m rs ret
         else
           let (bm1, m1, block) =
                 (case map_of (offset_to_block m) (offset dirty_page) of
                    Some b \<Rightarrow> (block_manager st, m, b)
                  | None \<Rightarrow>
                      let (bm', b) = alloc_block (block_manager st)
                      in (bm', m\<lparr>offset_to_block :=
                                   AList.update (offset dirty_page) b (offset_to_block m)\<rparr>, b));
               st1 = st\<lparr>block_manager := bm1,
                        heap := (heap st)(r := dirty_page\<lparr>flag_dirty := False\<rparr>)\<rparr>
           in case bwrite bm1 block (content dirty_page) (path m1, offset dirty_page) of
                Inl e \<Rightarrow> Inl (e, st1, m1)
              | Inr (bm2, bsuccess) \<Rightarrow>
                  GenericFsync_sync_loop (st1\<lparr>block_manager := bm2\<rparr>) m1 rs
                    (if \<not> bsuccess then - EIO else ret))"

definition GenericFsync_sync_pages ::
  "CuttleFS \<Rightarrow> MemInode \<Rightarrow> nat list \<Rightarrow>
     (error \<times> CuttleFS \<times> MemInode) + (CuttleFS \<times> MemInode \<times> int)" where
  "GenericFsync_sync_pages st m pages = GenericFsync_sync_loop st m pages 0"

text \<open>
  \<open>Btrfs.sync_pages\<close>: the loop leaves at the first failed \<open>bwrite\<close> (\<open>break\<close>); then the
  old blocks (no error) or the new blocks (error) are deallocated.
\<close>

fun Btrfs_sync_loop ::
  "CuttleFS \<Rightarrow> MemInode \<Rightarrow> nat list \<Rightarrow> nat list \<Rightarrow> nat list \<Rightarrow>
     error + (CuttleFS \<times> MemInode \<times> int \<times> nat list \<times> nat list)" where
  "Btrfs_sync_loop st m [] old_blocks new_blocks = Inr (st, m, 0, old_blocks, new_blocks)"
| "Btrfs_sync_loop st m (r # rs) old_blocks new_blocks =
     (let dirty_page = heap st r
      in if \<not> flag_dirty dirty_page then Btrfs_sync_loop st m rs old_blocks new_blocks
         else
           let old_blocks1 =
                 (case map_of (offset_to_block m) (offset dirty_page) of
                    Some old_block \<Rightarrow> old_blocks @ [old_block]
                  | None \<Rightarrow> old_blocks);
               (bm1, block) = alloc_block (block_manager st);
               m1 = m\<lparr>offset_to_block := AList.update (offset dirty_page) block (offset_to_block m)\<rparr>;
               new_blocks1 = new_blocks @ [block];
               st1 = st\<lparr>block_manager := bm1,
                        heap := (heap st)(r := dirty_page\<lparr>flag_dirty := False\<rparr>)\<rparr>
           in case bwrite bm1 block (content dirty_page) (path m1, offset dirty_page) of
                Inl e \<Rightarrow> Inl e
              | Inr (bm2, bsuccess) \<Rightarrow>
                  if \<not> bsuccess
                  then Inr (st1\<lparr>block_manager := bm2\<rparr>, m1, - EIO, old_blocks1, new_blocks1)
                  else Btrfs_sync_loop (st1\<lparr>block_manager := bm2\<rparr>) m1 rs old_blocks1 new_blocks1)"

definition Btrfs_sync_pages ::
  "CuttleFS \<Rightarrow> MemInode \<Rightarrow> nat list \<Rightarrow> error + (CuttleFS \<times> MemInode \<times> int)" where
  "Btrfs_sync_pages st m pages =
     (case Btrfs_sync_loop st m pages [] [] of
        Inl e \<Rightarrow> Inl e
      | Inr (st1, m1, ret, old_blocks, new_blocks) \<Rightarrow>
          let blocks_to_dealloc = (if ret = 0 then old_blocks else new_blocks)
          in Inr (st1\<lparr>block_manager := foldl dealloc_block (block_manager st1) blocks_to_dealloc\<rparr>,
                  m1, ret))"

subsection \<open>fsyncs.py: the four policies\<close>

text \<open>\<open>GenericFsync\<close>, used as it is by \<open>Ext4Ordered\<close> and \<open>XFS\<close>.\<close>

definition GenericFsync_on_fsync ::
  "CuttleFS \<Rightarrow> int \<Rightarrow> int \<Rightarrow> MemInode \<Rightarrow> error + (CuttleFS \<times> MemInode \<times> int)" where
  "GenericFsync_on_fsync st fd ino m =
     (let dirty_pages = get_dirty_pages st m
      in case GenericFsync_sync_pages st m dirty_pages of
           Inl (e, _, _) \<Rightarrow> Inl e
         | Inr (st1, m1, ret) \<Rightarrow>
             let st2 = sync_meta st1 m1;
                 st3 = (if ret \<noteq> 0 then add_fds_to_notify st2 ino else st2)
             in if should_notify_fd st3 fd ino
                then Inr (mark_fd_notified st3 fd ino, m1, - EIO)
                else Inr (st3, m1, ret))"

definition GenericFsync_on_sync_write ::
  "CuttleFS \<Rightarrow> int \<Rightarrow> int \<Rightarrow> MemInode \<Rightarrow> nat list \<Rightarrow> error + (CuttleFS \<times> MemInode \<times> int)" where
  "GenericFsync_on_sync_write st fd ino m pages =
     (if should_notify_fd st fd ino then Inr (mark_fd_notified st fd ino, m, - EIO)
      else case GenericFsync_sync_pages st m pages of
             Inl (e, _, _) \<Rightarrow> Inl e
           | Inr (st1, m1, ret) \<Rightarrow>
               let st2 = sync_meta st1 m1
               in if ret \<noteq> 0
                  then Inr (mark_fd_notified (add_fds_to_notify st2 ino) fd ino, m1, ret)
                  else Inr (st2, m1, ret))"

text \<open>\<open>Ext4Data\<close> inherits \<open>sync_pages\<close> and \<open>sync_meta\<close>.\<close>

definition Ext4Data_on_fsync ::
  "CuttleFS \<Rightarrow> int \<Rightarrow> int \<Rightarrow> MemInode \<Rightarrow> error + (CuttleFS \<times> MemInode \<times> int)" where
  "Ext4Data_on_fsync st fd ino m =
     (if should_notify_fd st fd ino then Inr (mark_fd_notified st fd ino, m, - EIO)
      else
        let dirty_pages = get_dirty_pages st m
        in case GenericFsync_sync_pages st m dirty_pages of
             Inl (e, _, _) \<Rightarrow> Inl e
           | Inr (st1, m1, ret) \<Rightarrow>
               let st2 = sync_meta st1 m1
               in Inr (if ret \<noteq> 0 then add_fds_to_notify st2 ino else st2, m1, 0))"

text \<open>
  \<open>Ext4Data.on_sync_write\<close> calls \<open>self.sync_meta(inode)\<close>: the argument is the inode
  number, and \<open>sync_meta\<close> starts by reading \<open>minode.size\<close> of it, which an \<open>int\<close> does not
  have. The call raises \<open>AttributeError\<close> before any file is opened.
\<close>

definition Ext4Data_on_sync_write ::
  "CuttleFS \<Rightarrow> int \<Rightarrow> int \<Rightarrow> MemInode \<Rightarrow> nat list \<Rightarrow> error + (CuttleFS \<times> MemInode \<times> int)" where
  "Ext4Data_on_sync_write st fd ino m pages =
     (if should_notify_fd st fd ino then Inr (mark_fd_notified st fd ino, m, - EIO)
      else case GenericFsync_sync_pages st m pages of
             Inl (e, _, _) \<Rightarrow> Inl e
           | Inr (st1, m1, ret) \<Rightarrow> Inl AttributeError)"

definition Btrfs_on_fsync ::
  "CuttleFS \<Rightarrow> int \<Rightarrow> int \<Rightarrow> MemInode \<Rightarrow> error + (CuttleFS \<times> MemInode \<times> int)" where
  "Btrfs_on_fsync st fd ino m =
     (if should_notify_fd st fd ino then Inr (mark_fd_notified st fd ino, m, - EIO)
      else
        let dirty_pages = get_dirty_pages st m
        in case Btrfs_sync_pages st m dirty_pages of
             Inl e \<Rightarrow> Inl e
           | Inr (st1, m1, ret) \<Rightarrow>
               if ret = 0 then Inr (sync_meta st1 m1, m1, ret)
               else
                 (case map_of (host st1) (realpath m1) of
                    None \<Rightarrow> Inl FileNotFoundError
                  | Some f \<Rightarrow>
                      let disk_meta = meta f;
                          m2 = m1\<lparr>size_mi := meta_size disk_meta,
                                  atime := meta_atime disk_meta,
                                  mtime := meta_mtime disk_meta,
                                  offset_to_block := meta_offset_to_block disk_meta\<rparr>;
                          m3 = m2\<lparr>offset_to_page :=
                                    foldl (\<lambda>otp r. AList.delete (offset (heap st1 r)) otp)
                                      (offset_to_page m2) dirty_pages\<rparr>;
                          st2 = add_fds_to_notify st1 ino
                      in Inr (mark_fd_notified st2 fd ino, m3, ret)))"

definition Btrfs_on_sync_write ::
  "CuttleFS \<Rightarrow> int \<Rightarrow> int \<Rightarrow> MemInode \<Rightarrow> nat list \<Rightarrow> error + (CuttleFS \<times> MemInode \<times> int)" where
  "Btrfs_on_sync_write st fd ino m pages = Btrfs_on_fsync st fd ino m"

text \<open>Method dispatch on the class of \<open>self.fsync_obj\<close>.\<close>

definition on_fsync ::
  "CuttleFS \<Rightarrow> int \<Rightarrow> int \<Rightarrow> MemInode \<Rightarrow> error + (CuttleFS \<times> MemInode \<times> int)" where
  "on_fsync st fd ino m =
     (case fsync_cls st of
        Ext4Ordered \<Rightarrow> GenericFsync_on_fsync st fd ino m
      | XFS \<Rightarrow> GenericFsync_on_fsync st fd ino m
      | Ext4Data \<Rightarrow> Ext4Data_on_fsync st fd ino m
      | Btrfs \<Rightarrow> Btrfs_on_fsync st fd ino m)"

definition on_sync_write ::
  "CuttleFS \<Rightarrow> int \<Rightarrow> int \<Rightarrow> MemInode \<Rightarrow> nat list \<Rightarrow> error + (CuttleFS \<times> MemInode \<times> int)" where
  "on_sync_write st fd ino m pages =
     (case fsync_cls st of
        Ext4Ordered \<Rightarrow> GenericFsync_on_sync_write st fd ino m pages
      | XFS \<Rightarrow> GenericFsync_on_sync_write st fd ino m pages
      | Ext4Data \<Rightarrow> Ext4Data_on_sync_write st fd ino m pages
      | Btrfs \<Rightarrow> Btrfs_on_sync_write st fd ino m pages)"

subsection \<open>cuttlefs.py: the facade\<close>

text \<open>
  Paths are plain strings. \<open>realpath\<close> is \<open>self.root / x.lstrip("/")\<close> and \<open>parent\<close> is
  \<open>Path.parent\<close>, for paths that \<open>pathlib\<close> has nothing to normalise in.
\<close>

definition realpath_fs :: "CuttleFS \<Rightarrow> string \<Rightarrow> string" where
  "realpath_fs st x =
     (let rest = dropWhile (\<lambda>c. c = CHR ''/'') x
      in if rest = [] then root st else root st @ ''/'' @ rest)"


text \<open>Slices \<open>xs[i:j]\<close> and \<open>xs[i:j] = d\<close> of a \<open>bytearray\<close>, for \<open>0 \<le> i \<le> j\<close>.\<close>

definition slice :: "'a list \<Rightarrow> int \<Rightarrow> int \<Rightarrow> 'a list" where
  "slice xs i j = take (nat j - nat i) (drop (nat i) xs)"

definition slice_assign :: "'a list \<Rightarrow> int \<Rightarrow> int \<Rightarrow> 'a list \<Rightarrow> 'a list" where
  "slice_assign xs i j d = take (nat i) xs @ d @ drop (nat j) xs"

text \<open>
  The lines \<open>if not self.page_cache.contains(inode): ... put(inode, MemInode(...))\<close> followed
  by \<open>minode = self.page_cache.get(inode)\<close>, which open \<open>read\<close>, \<open>write\<close>, \<open>truncate\<close> and
  \<open>open\<close>.
\<close>

definition minode_for :: "CuttleFS \<Rightarrow> int \<Rightarrow> string \<Rightarrow> string \<Rightarrow> error + (CuttleFS \<times> MemInode)" where
  "minode_for st ino p rp =
     (case map_of (page_cache st) ino of
        Some m \<Rightarrow> Inr (st, m)
      | None \<Rightarrow>
          (case MemInode_init (host st) ino p rp of
             Inl e \<Rightarrow> Inl e
           | Inr m \<Rightarrow> Inr (st\<lparr>page_cache := AList.update ino m (page_cache st)\<rparr>, m)))"

text \<open>\<open>_get_page_for_offset\<close>: the state, the inode and the reference of the page.\<close>

definition get_page_for_offset ::
  "CuttleFS \<Rightarrow> MemInode \<Rightarrow> int \<Rightarrow> error + (CuttleFS \<times> MemInode \<times> nat)" where
  "get_page_for_offset st m off =
     (if off mod int PAGE_SZ \<noteq> 0 then Inl AssertionError
      else case map_of (offset_to_page m) off of
             Some r \<Rightarrow> Inr (st, m, r)
           | None \<Rightarrow>
               let r = next_ref st;
                   page = Page_init (inode m) off;
                   st1 = st\<lparr>heap := (heap st)(r := page), next_ref := r + 1\<rparr>;
                   m1 = m\<lparr>offset_to_page := AList.update off r (offset_to_page m)\<rparr>
               in (case map_of (offset_to_block m1) off of
                     None \<Rightarrow> Inr (st1, m1, r)
                   | Some block \<Rightarrow>
                       (case bread (block_manager st1) block of
                          Inl e \<Rightarrow> Inl e
                        | Inr c \<Rightarrow>
                            Inr (st1\<lparr>heap := (heap st1)(r := page\<lparr>content := c\<rparr>)\<rparr>, m1, r))))"

text \<open>
  The loop of \<open>read\<close>. It advances by \<open>len(data)\<close>, which is 0 when the page holds no byte
  at \<open>pg_start\<close>; then it never ends. The first argument bounds the number of iterations,
  and \<open>None\<close> says that the bound was reached.
\<close>

fun read_loop ::
  "nat \<Rightarrow> CuttleFS \<Rightarrow> MemInode \<Rightarrow> int \<Rightarrow> int \<Rightarrow> bytes \<Rightarrow>
     (error + (CuttleFS \<times> MemInode \<times> bytes)) option" where
  "read_loop 0 st m current_offset remaining buf =
     (if remaining > 0 then None else Some (Inr (st, m, buf)))"
| "read_loop (Suc n) st m current_offset remaining buf =
     (if remaining > 0
      then
        let page_num = current_offset div int PAGE_SZ
        in case get_page_for_offset st m (page_num * int PAGE_SZ) of
             Inl e \<Rightarrow> Some (Inl e)
           | Inr (st1, m1, r) \<Rightarrow>
               let pg_start = current_offset mod int PAGE_SZ;
                   pg_nbytes = min remaining (int PAGE_SZ - pg_start);
                   data = slice (content (heap st1 r)) pg_start (pg_start + pg_nbytes)
               in read_loop n st1 m1 (current_offset + int (length data))
                    (remaining - int (length data)) (buf @ data)
      else Some (Inr (st, m, buf)))"

definition read ::
  "nat \<Rightarrow> CuttleFS \<Rightarrow> string \<Rightarrow> int \<Rightarrow> int \<Rightarrow> int \<Rightarrow> (error + (CuttleFS \<times> bytes)) option" where
  "read fuel st p sz off fd =
     (case map_of (fd_info_map st) fd of
        None \<Rightarrow> Some (Inl KeyError)
      | Some fd_info \<Rightarrow>
          (case minode_for st (inode_fd fd_info) p (path_fd fd_info) of
             Inl e \<Rightarrow> Some (Inl e)
           | Inr (st1, m) \<Rightarrow>
               if sz = 0 then Some (Inr (st1, []))
               else if off \<ge> size_mi m then Some (Inr (st1, []))
               else
                 let sz1 = (if off + sz \<ge> size_mi m then size_mi m - off else sz)
                 in (case read_loop fuel st1 m off sz1 [] of
                       None \<Rightarrow> None
                     | Some (Inl e) \<Rightarrow> Some (Inl e)
                     | Some (Inr (st2, m2, buf)) \<Rightarrow>
                         Some (Inr (st2\<lparr>page_cache :=
                                          AList.update (inode_fd fd_info) m2 (page_cache st2)\<rparr>,
                                    buf)))))"

text \<open>The loop of \<open>write\<close>; it returns \<open>dirty_pages\<close> and the final \<open>remaining\<close>.\<close>

function write_loop ::
  "CuttleFS \<Rightarrow> MemInode \<Rightarrow> bytes \<Rightarrow> int \<Rightarrow> int \<Rightarrow> int \<Rightarrow> nat list \<Rightarrow>
     error + (CuttleFS \<times> MemInode \<times> nat list \<times> int)" where
  "write_loop st m data data_idx current_offset remaining dirty_pages =
     (if remaining > 0
      then
        let page_num = current_offset div int PAGE_SZ
        in case get_page_for_offset st m (page_num * int PAGE_SZ) of
             Inl e \<Rightarrow> Inl e
           | Inr (st1, m1, r) \<Rightarrow>
               let pg_start = current_offset mod int PAGE_SZ;
                   pg_nbytes = min remaining (int PAGE_SZ - pg_start);
                   page = heap st1 r;
                   page1 = page\<lparr>content := slice_assign (content page) pg_start (pg_start + pg_nbytes)
                                              (slice data data_idx (data_idx + pg_nbytes)),
                                flag_dirty := True\<rparr>
               in write_loop (st1\<lparr>heap := (heap st1)(r := page1)\<rparr>) m1 data
                    (data_idx + pg_nbytes) (current_offset + pg_nbytes) (remaining - pg_nbytes)
                    (dirty_pages @ [r])
      else Inr (st, m, dirty_pages, remaining))"
  by pat_completeness auto
termination
  by (relation "measure (\<lambda>(st, m, data, data_idx, current_offset, remaining, dirty_pages). nat remaining)")
     (auto simp: PAGE_SZ_def min_def)

text \<open>
  \<open>write\<close>; \<open>now\<close> is the value of \<open>time.time()\<close>. For a descriptor in \<open>sync_fds\<close> the
  method ends with \<open>self.on_sync_write(fd, fd_info.inode, minode, dirty_pages)\<close>: the
  attribute is looked up on the \<open>CuttleFS\<close> object, and neither \<open>CuttleFS\<close> nor
  \<open>PassthroughOperations\<close> nor \<open>fuse.Operations\<close> defines it (the method lives on
  \<open>self.fsync_obj\<close>), so the lookup raises \<open>AttributeError\<close>.
\<close>

definition "write" ::
  "CuttleFS \<Rightarrow> string \<Rightarrow> bytes \<Rightarrow> int \<Rightarrow> int \<Rightarrow> timestamp \<Rightarrow> error + (CuttleFS \<times> int)" where
  "write st p data off fd now =
     (case map_of (fd_info_map st) fd of
        None \<Rightarrow> Inl KeyError
      | Some fd_info \<Rightarrow>
          let sz = int (length data)
          in (case minode_for st (inode_fd fd_info) p (path_fd fd_info) of
                Inl e \<Rightarrow> Inl e
              | Inr (st1, m) \<Rightarrow>
                  if sz = 0 then Inr (st1, 0)
                  else
                    let sync_fd = (fd \<in> sync_fds st1)
                    in (case write_loop st1 m data 0 off sz [] of
                          Inl e \<Rightarrow> Inl e
                        | Inr (st2, m2, dirty_pages, remaining) \<Rightarrow>
                            let nbytes_written = sz - remaining;
                                m3 = (if off + nbytes_written > size_mi m2
                                      then m2\<lparr>size_mi := off + nbytes_written\<rparr> else m2);
                                m4 = m3\<lparr>mtime := now\<rparr>;
                                st3 = st2\<lparr>page_cache :=
                                            AList.update (inode_fd fd_info) m4 (page_cache st2)\<rparr>
                            in if sync_fd then Inl AttributeError
                               else Inr (st3, nbytes_written))))"

definition fsync :: "CuttleFS \<Rightarrow> string \<Rightarrow> int \<Rightarrow> int \<Rightarrow> error + (CuttleFS \<times> int)" where
  "fsync st p datasync fd =
     (case map_of (fd_info_map st) fd of
        None \<Rightarrow> Inl KeyError
      | Some fd_info \<Rightarrow>
          (case map_of (page_cache st) (inode_fd fd_info) of
             None \<Rightarrow> Inr (st, 0)
           | Some m \<Rightarrow>
               (case on_fsync st fd (inode_fd fd_info) m of
                  Inl e \<Rightarrow> Inl e
                | Inr (st1, m1, ret) \<Rightarrow>
                    Inr (st1\<lparr>page_cache := AList.update (inode_fd fd_info) m1 (page_cache st1)\<rparr>,
                         ret))))"

text \<open>The flags of \<open>open\<close> that the facade looks at.\<close>

record open_flags =
  O_DIRECT :: bool
  O_NOFOLLOW :: bool
  O_SYNC :: bool
  O_DSYNC :: bool

definition alloc_fd :: "CuttleFS \<Rightarrow> string \<Rightarrow> int \<Rightarrow> error + (CuttleFS \<times> int)" where
  "alloc_fd st rp ino =
     (if map_of (host st) rp = None then Inl AssertionError
      else
        let new_fd = last_fd_alloced st + 1;
            fds = (case map_of (inode_to_open_fds_map st) ino of None \<Rightarrow> {} | Some s \<Rightarrow> s)
        in Inr (st\<lparr>last_fd_alloced := new_fd,
                   fd_info_map := AList.update new_fd \<lparr>inode_fd = ino, path_fd = rp\<rparr> (fd_info_map st),
                   inode_to_open_fds_map :=
                     AList.update ino (insert new_fd fds) (inode_to_open_fds_map st)\<rparr>,
                new_fd))"

definition open_file :: "CuttleFS \<Rightarrow> string \<Rightarrow> open_flags \<Rightarrow> error + (CuttleFS \<times> int)" where
  "open_file st p flags =
     (if O_DIRECT flags then Inl AssertionError
      else if O_NOFOLLOW flags then Inl AssertionError
      else
        let rp = realpath_fs st p
        in (case map_of (host st) rp of
              None \<Rightarrow> Inl FileNotFoundError
            | Some f \<Rightarrow>
                (case minode_for st (st_ino f) p rp of
                   Inl e \<Rightarrow> Inl e
                 | Inr (st1, m) \<Rightarrow>
                     (case alloc_fd st1 rp (st_ino f) of
                        Inl e \<Rightarrow> Inl e
                      | Inr (st2, fh) \<Rightarrow>
                          Inr (if O_SYNC flags \<or> O_DSYNC flags
                               then st2\<lparr>sync_fds := insert fh (sync_fds st2)\<rparr> else st2,
                               fh)))))"


text \<open>The zero-filling loop of \<open>truncate\<close> for \<open>length > minode.size\<close>.\<close>

function truncate_grow_loop ::
  "CuttleFS \<Rightarrow> MemInode \<Rightarrow> int \<Rightarrow> int \<Rightarrow> error + (CuttleFS \<times> MemInode)" where
  "truncate_grow_loop st m current_offset remaining =
     (if remaining > 0
      then
        let page_num = current_offset div int PAGE_SZ
        in case get_page_for_offset st m (page_num * int PAGE_SZ) of
             Inl e \<Rightarrow> Inl e
           | Inr (st1, m1, r) \<Rightarrow>
               let pg_start = current_offset mod int PAGE_SZ;
                   pg_nbytes = min remaining (int PAGE_SZ - pg_start);
                   page = heap st1 r;
                   page1 = page\<lparr>content := slice_assign (content page) pg_start (pg_start + pg_nbytes)
                                              (replicate (nat pg_nbytes) zero_byte),
                                flag_dirty := True\<rparr>
               in truncate_grow_loop (st1\<lparr>heap := (heap st1)(r := page1)\<rparr>) m1
                    (current_offset + pg_nbytes) (remaining - pg_nbytes)
      else Inr (st, m))"
  by pat_completeness auto
termination
  by (relation "measure (\<lambda>(st, m, current_offset, remaining). nat remaining)")
     (auto simp: PAGE_SZ_def min_def)

text \<open>
  \<open>truncate\<close>. In the branch \<open>length < minode.size\<close> the body of
  \<open>while current_offset < minode.size\<close> starts with \<open>self.offset_to_page.pop(...)\<close>: the
  \<open>CuttleFS\<close> object has no attribute \<open>offset_to_page\<close>, so the first iteration raises
  \<open>AttributeError\<close>, and the method reaches \<open>minode.size = length\<close> only when the loop
  does not run at all.
\<close>

definition truncate :: "CuttleFS \<Rightarrow> string \<Rightarrow> int \<Rightarrow> error + (CuttleFS \<times> int)" where
  "truncate st p len =
     (let rp = realpath_fs st p
      in case map_of (host st) rp of
           None \<Rightarrow> Inl FileNotFoundError
         | Some f \<Rightarrow>
             let ino = st_ino f
             in (case minode_for st ino p rp of
                   Inl e \<Rightarrow> Inl e
                 | Inr (st1, m) \<Rightarrow>
                     if len = size_mi m then Inr (st1, len)
                     else if len = 0
                     then
                       let bm1 = foldl dealloc_block (block_manager st1) (map snd (offset_to_block m));
                           m1 = m\<lparr>offset_to_page := [], offset_to_block := [], size_mi := 0\<rparr>
                       in Inr (st1\<lparr>block_manager := bm1,
                                   page_cache := AList.update ino m1 (page_cache st1)\<rparr>, 0)
                     else if len < size_mi m
                     then
                       let last_valid_page = (len - 1) div int PAGE_SZ
                       in (case get_page_for_offset st1 m (last_valid_page * int PAGE_SZ) of
                             Inl e \<Rightarrow> Inl e
                           | Inr (st2, m2, r) \<Rightarrow>
                               let pg_start = len mod int PAGE_SZ;
                                   pg_nbytes = int PAGE_SZ - pg_start;
                                   page = heap st2 r;
                                   st3 = (if pg_nbytes > 0
                                          then st2\<lparr>heap := (heap st2)
                                                 (r := page\<lparr>content :=
                                                         slice_assign (content page) pg_start
                                                           (pg_start + pg_nbytes)
                                                           (replicate (nat pg_nbytes) zero_byte),
                                                       flag_dirty := True\<rparr>)\<rparr>
                                          else st2);
                                   current_offset = (last_valid_page + 1) * int PAGE_SZ
                               in if current_offset < size_mi m2 then Inl AttributeError
                                  else
                                    let m3 = m2\<lparr>size_mi := len\<rparr>
                                    in Inr (st3\<lparr>page_cache := AList.update ino m3 (page_cache st3)\<rparr>,
                                            len))
                     else
                       (case truncate_grow_loop st1 m (size_mi m) (len - size_mi m) of
                          Inl e \<Rightarrow> Inl e
                        | Inr (st2, m2) \<Rightarrow>
                            let m3 = m2\<lparr>size_mi := len\<rparr>
                            in Inr (st2\<lparr>page_cache := AList.update ino m3 (page_cache st2)\<rparr>, len))))"

text \<open>
  \<open>_command_evict_clean_pages\<close> (the command \<open>evict-clean-pages\<close> of \<open>handle_command\<close>):
  every inode of the page cache drops the pages whose dirty flag is false.
\<close>

definition command_evict_clean_pages :: "CuttleFS \<Rightarrow> CuttleFS" where
  "command_evict_clean_pages st =
     st\<lparr>page_cache :=
          map (\<lambda>(ino, m). (ino, m\<lparr>offset_to_page :=
                 filter (\<lambda>(off, r). flag_dirty (heap st r)) (offset_to_page m)\<rparr>))
            (page_cache st)\<rparr>"

subsection \<open>Vocabulary of the properties\<close>

text \<open>
  A sequence built by \<open>FailSequence\<close>'s constructor and advanced by \<open>next\<close> keeps
  \<open>idx \<ge> -1\<close> and \<open>end_idx = len(seq) - 1\<close>; then \<open>seq[idx]\<close> in \<open>next\<close> is in range.
\<close>

definition wf_seq :: "FailSequence \<Rightarrow> bool" where
  "wf_seq sq = (- 1 \<le> idx sq \<and> end_idx sq = int (length (seq sq)) - 1)"

text \<open>The oracle after one call of \<open>next\<close>, and what that call returns.\<close>

definition advance :: "FailSequence \<Rightarrow> FailSequence" where
  "advance sq = sq\<lparr>idx := idx sq + 1\<rparr>"

definition outcome :: "FailSequence \<Rightarrow> char" where
  "outcome sq = (if idx sq + 1 \<ge> end_idx sq then termchar sq else seq sq ! nat (idx sq + 1))"

definition fails_at :: "(int \<rightharpoonup> FailSequence) \<Rightarrow> int \<Rightarrow> bool" where
  "fails_at m0 q = (case m0 q of None \<Rightarrow> False | Some sq \<Rightarrow> outcome sq = CHR ''x'')"

definition sector_step ::
  "(int \<rightharpoonup> FailSequence) \<Rightarrow> bytes \<Rightarrow> nat \<Rightarrow> int \<Rightarrow> bytes \<Rightarrow> nat \<Rightarrow> bytes" where
  "sector_step m0 data base off f i =
     (if fails_at m0 (off + int i * 512) then f
      else pwrite f (take 512 (drop (i * 512) data)) (base + i * 512))"

text \<open>\<open>faulty_paths[path][q]\<close>, if installed.\<close>

definition oracle_at :: "BlockManager \<Rightarrow> string \<Rightarrow> int \<Rightarrow> FailSequence option" where
  "oracle_at bm p q = (case map_of (faulty_paths bm) p of None \<Rightarrow> None | Some m \<Rightarrow> map_of m q)"

text \<open>
  Sector \<open>i\<close> of a \<open>bwrite\<close> at logical offset \<open>off\<close> of \<open>p\<close> fails: an oracle is installed
  at \<open>off + i * SECTOR_SZ\<close> and its \<open>next()\<close> yields \<open>'x'\<close>.
\<close>

definition sector_fails :: "BlockManager \<Rightarrow> string \<Rightarrow> int \<Rightarrow> nat \<Rightarrow> bool" where
  "sector_fails bm p off i =
     (case oracle_at bm p (off + int i * int SECTOR_SZ) of
        None \<Rightarrow> False
      | Some sq \<Rightarrow> (case next sq of Inl e \<Rightarrow> False | Inr (sq', c) \<Rightarrow> c = CHR ''x''))"

text \<open>
  A block manager and a data block for the examples: an oracle \<open>xW\<close> (fail once, then
  pass) sits on the second sector of \<open>/f\<close>.
\<close>

definition bm_example :: BlockManager where
  "bm_example =
     \<lparr>size_bm = PAGE_SZ, free_list = [], largest_block_num = 0,
      faulty_paths = [(''/f'', [(512, \<lparr>seq = ''xW'', idx = - 1, end_idx = 1, termchar = CHR ''w''\<rparr>)])],
      backing = replicate PAGE_SZ zero_byte, bwrite_log = []\<rparr>"

definition data_example :: bytes where
  "data_example = replicate PAGE_SZ (CHR ''a'')"

declare write_loop.simps [simp del]

declare truncate_grow_loop.simps [simp del]

text \<open>
  \<open>CuttleFS.__init__\<close> over a block manager that has its fault list installed and a host
  directory with the given metadata files: empty page cache and fd tables, descriptors
  from 4 on, a policy object with no failure recorded, no \<open>Page\<close> object yet.
\<close>

definition CuttleFS_init ::
  "string \<Rightarrow> string \<Rightarrow> fsync_class \<Rightarrow> BlockManager \<Rightarrow> (string \<times> host_file) list \<Rightarrow> int \<Rightarrow> CuttleFS" where
  "CuttleFS_init rt metadir cls bm files next_ino =
     \<lparr>root = rt, to_be_deleted = metadir @ ''/to_be_deleted'', block_manager = bm,
      page_cache = [], last_fd_alloced = 3, fd_info_map = [], inode_to_open_fds_map = [],
      sync_fds = {}, fsync_cls = cls, failed_inodes_fd_map = [],
      heap = (\<lambda>r. Page_init 0 0), next_ref = 0, host = files, host_next_ino = next_ino\<rparr>"

text \<open>
  The examples: a mount over the block manager above, with one empty file \<open>/f\<close> (host inode
  1), and the flags of a plain and of a synchronous \<open>open\<close>.
\<close>

definition fs_example :: "fsync_class \<Rightarrow> CuttleFS" where
  "fs_example cls =
     CuttleFS_init ''/src'' ''/meta'' cls bm_example
       [(''/src/f'', \<lparr>st_ino = 1,
           meta = \<lparr>meta_size = 0, meta_atime = 0, meta_mtime = 0, meta_offset_to_block = []\<rparr>\<rparr>)] 2"

definition flags_plain :: open_flags where
  "flags_plain = \<lparr>O_DIRECT = False, O_NOFOLLOW = False, O_SYNC = False, O_DSYNC = False\<rparr>"

definition flags_sync :: open_flags where
  "flags_sync = \<lparr>O_DIRECT = False, O_NOFOLLOW = False, O_SYNC = True, O_DSYNC = False\<rparr>"

text \<open>The state after \<open>open("/f")\<close> in the example mount: descriptor 4, in \<open>sync_fds\<close> or not.\<close>

definition minode_example :: MemInode where
  "minode_example =
     \<lparr>inode = 1, path = ''/f'', realpath = ''/src/f'', offset_to_block = [],
      atime = 0, mtime = 0, size_mi = 0, offset_to_page = []\<rparr>"

definition fs_opened :: "fsync_class \<Rightarrow> int set \<Rightarrow> CuttleFS" where
  "fs_opened cls S =
     (fs_example cls)\<lparr>page_cache := [(1, minode_example)], last_fd_alloced := 4,
                       fd_info_map := [(4, \<lparr>inode_fd = 1, path_fd = ''/src/f''\<rparr>)],
                       inode_to_open_fds_map := [(1, {4})], sync_fds := S\<rparr>"

text \<open>
  The state after \<open>write("/f", b"a" * 8192, 0)\<close> through the plain descriptor at time 1:
  two dirty pages, no block yet.
\<close>

definition minode_written :: MemInode where
  "minode_written =
     minode_example\<lparr>mtime := 1, size_mi := 8192, offset_to_page := [(0, 0), (4096, 1)]\<rparr>"

definition fs_written :: "fsync_class \<Rightarrow> CuttleFS" where
  "fs_written cls =
     (fs_opened cls {})\<lparr>page_cache := [(1, minode_written)],
        heap := (\<lambda>r. Page_init 0 0)
          (0 := \<lparr>inode_pg = 1, offset = 0, content = replicate PAGE_SZ (CHR ''a''), flag_dirty = True\<rparr>,
           1 := \<lparr>inode_pg = 1, offset = 4096, content = replicate PAGE_SZ (CHR ''a''), flag_dirty = True\<rparr>),
        next_ref := 2\<rparr>"



text \<open>
  What \<open>read\<close> may do to the page store and to the inode it reads: nothing but create
  \<open>Page\<close> objects, clean, and file them at the end of \<open>offset_to_page\<close>.
\<close>

definition read_frame :: "CuttleFS \<Rightarrow> MemInode \<Rightarrow> CuttleFS \<Rightarrow> MemInode \<Rightarrow> bool" where
  "read_frame st m st' m' =
     (st' = st\<lparr>heap := heap st', next_ref := next_ref st'\<rparr> \<and>
      m' = m\<lparr>offset_to_page := offset_to_page m'\<rparr> \<and>
      next_ref st \<le> next_ref st' \<and>
      (\<forall>q. q < next_ref st \<longrightarrow> heap st' q = heap st q) \<and>
      (\<forall>q. next_ref st \<le> q \<and> q < next_ref st' \<longrightarrow> \<not> flag_dirty (heap st' q)) \<and>
      (\<exists>new. offset_to_page m' = offset_to_page m @ new \<and>
             (\<forall>(k, q)\<in>set new. next_ref st \<le> q \<and> q < next_ref st')))"

text \<open>
  A second example: the mount found after \<open>b"a" * 8192\<close> was written to \<open>/f\<close> and synced
  without faults (blocks 0 and 1), with \<open>/f\<close> opened again.
\<close>

definition bm_full :: BlockManager where
  "bm_full =
     \<lparr>size_bm = 8192, free_list = [], largest_block_num = 2, faulty_paths = [],
      backing = replicate 8192 (CHR ''a''), bwrite_log = []\<rparr>"

definition fs_remounted :: "fsync_class \<Rightarrow> CuttleFS" where
  "fs_remounted cls =
     CuttleFS_init ''/src'' ''/meta'' cls bm_full
       [(''/src/f'', \<lparr>st_ino = 1,
           meta = \<lparr>meta_size = 8192, meta_atime = 0, meta_mtime = 1,
                   meta_offset_to_block = [(0, 0), (4096, 1)]\<rparr>\<rparr>)] 2"

definition minode_remounted :: MemInode where
  "minode_remounted =
     \<lparr>inode = 1, path = ''/f'', realpath = ''/src/f'', offset_to_block = [(0, 0), (4096, 1)],
      atime = 0, mtime = 1, size_mi = 8192, offset_to_page = []\<rparr>"

definition fs_reopened :: "fsync_class \<Rightarrow> CuttleFS" where
  "fs_reopened cls =
     (fs_remounted cls)\<lparr>page_cache := [(1, minode_remounted)], last_fd_alloced := 4,
                         fd_info_map := [(4, \<lparr>inode_fd = 1, path_fd = ''/src/f''\<rparr>)],
                         inode_to_open_fds_map := [(1, {4})]\<rparr>"

text \<open>
  A third example, for the read loop: an ext4-ordered mount whose fault list is
  \<open>[{'path': '/f', 'seq': 'X', 'sector': 15}]\<close> (every write of the last sector of the
  second page of \<open>/f\<close> fails), and the states it goes through: after \<open>open\<close>, after the
  write of \<open>b"a" * 8192\<close> at 0, after the \<open>fsync\<close> that fails (the backing file \<open>B\<close> ends
  where the failed sector would start), and after \<open>evict-clean-pages\<close> and the write of
  \<open>b"Z"\<close> at 8000.
\<close>

definition bm_tail :: BlockManager where
  "bm_tail =
     \<lparr>size_bm = PAGE_SZ, free_list = [], largest_block_num = 0,
      faulty_paths = [(''/f'', [(7680, \<lparr>seq = ''X'', idx = - 1, end_idx = 0, termchar = CHR ''x''\<rparr>)])],
      backing = replicate PAGE_SZ zero_byte, bwrite_log = []\<rparr>"

definition fs_tail :: CuttleFS where
  "fs_tail =
     CuttleFS_init ''/src'' ''/meta'' Ext4Ordered bm_tail
       [(''/src/f'', \<lparr>st_ino = 1,
           meta = \<lparr>meta_size = 0, meta_atime = 0, meta_mtime = 0, meta_offset_to_block = []\<rparr>\<rparr>)] 2"

definition tail_opened :: CuttleFS where
  "tail_opened =
     fs_tail\<lparr>page_cache := [(1, minode_example)], last_fd_alloced := 4,
             fd_info_map := [(4, \<lparr>inode_fd = 1, path_fd = ''/src/f''\<rparr>)],
             inode_to_open_fds_map := [(1, {4})]\<rparr>"

definition tail_written :: CuttleFS where
  "tail_written =
     tail_opened\<lparr>page_cache := [(1, minode_written)],
        heap := (\<lambda>r. Page_init 0 0)
          (0 := \<lparr>inode_pg = 1, offset = 0, content = replicate PAGE_SZ (CHR ''a''), flag_dirty = True\<rparr>,
           1 := \<lparr>inode_pg = 1, offset = 4096, content = replicate PAGE_SZ (CHR ''a''), flag_dirty = True\<rparr>),
        next_ref := 2\<rparr>"

definition minode_synced :: MemInode where
  "minode_synced = minode_written\<lparr>offset_to_block := [(0, 0), (4096, 1)]\<rparr>"

definition tail_failed :: "bytes \<Rightarrow> CuttleFS" where
  "tail_failed B =
     tail_written\<lparr>
        block_manager :=
          \<lparr>size_bm = 8192, free_list = [], largest_block_num = 2,
           faulty_paths = [(''/f'', [(7680, \<lparr>seq = ''X'', idx = 0, end_idx = 0, termchar = CHR ''x''\<rparr>)])],
           backing = B,
           bwrite_log = [\<lparr>msg_block = 0, msg_path = ''/f'', msg_offset = 0, bio_success = True\<rparr>,
                         \<lparr>msg_block = 1, msg_path = ''/f'', msg_offset = 4096, bio_success = False\<rparr>]\<rparr>,
        page_cache := [(1, minode_synced)],
        heap := (\<lambda>r. Page_init 0 0)
          (0 := \<lparr>inode_pg = 1, offset = 0, content = replicate PAGE_SZ (CHR ''a''), flag_dirty = False\<rparr>,
           1 := \<lparr>inode_pg = 1, offset = 4096, content = replicate PAGE_SZ (CHR ''a''), flag_dirty = False\<rparr>),
        host := [(''/src/f'', \<lparr>st_ino = 1,
           meta = \<lparr>meta_size = 8192, meta_atime = 0, meta_mtime = 1,
                   meta_offset_to_block = [(0, 0), (4096, 1)]\<rparr>\<rparr>)]\<rparr>"

definition tail_rewritten :: "bytes \<Rightarrow> CuttleFS" where
  "tail_rewritten B =
     (tail_failed B)\<lparr>
        page_cache := [(1, minode_synced\<lparr>mtime := 2, offset_to_page := [(4096, 2)]\<rparr>)],
        heap := (heap (tail_failed B))
          (2 := \<lparr>inode_pg = 1, offset = 4096,
                 content = slice_assign (pread B PAGE_SZ 4096) 3904 3905 ''Z'', flag_dirty = True\<rparr>),
        next_ref := 3\<rparr>"

text \<open>
  Free-list exclusivity: no block of any cached inode's \<open>offset_to_block\<close> is in the block
  manager's \<open>free_list\<close>.
\<close>

definition free_list_exclusive :: "CuttleFS \<Rightarrow> bool" where
  "free_list_exclusive st =
     list_all (\<lambda>(ino, m). list_all (\<lambda>(off, b). b \<notin> set (free_list (block_manager st)))
                            (offset_to_block m))
       (page_cache st)"

text \<open>
  A fourth example, for the free list: a btrfs mount whose fault list is
  \<open>[{'path': '/f', 'seq': 'wX', 'sector': 0}]\<close> (the first write of the first sector of
  \<open>/f\<close> passes, every later one fails), and the states it goes through: after \<open>open\<close>,
  after the write of \<open>b"a"\<close> at 0, after the \<open>fsync\<close> that commits block 0 (the backing
  file is \<open>B\<close>), after \<open>truncate("/f", 0)\<close>, and after the write of \<open>b"b"\<close> at 0.
\<close>

definition bm_cow :: BlockManager where
  "bm_cow =
     \<lparr>size_bm = PAGE_SZ, free_list = [], largest_block_num = 0,
      faulty_paths = [(''/f'', [(0, \<lparr>seq = ''wX'', idx = - 1, end_idx = 1, termchar = CHR ''x''\<rparr>)])],
      backing = replicate PAGE_SZ zero_byte, bwrite_log = []\<rparr>"

definition fs_cow :: CuttleFS where
  "fs_cow =
     CuttleFS_init ''/src'' ''/meta'' Btrfs bm_cow
       [(''/src/f'', \<lparr>st_ino = 1,
           meta = \<lparr>meta_size = 0, meta_atime = 0, meta_mtime = 0, meta_offset_to_block = []\<rparr>\<rparr>)] 2"

definition cow_opened :: CuttleFS where
  "cow_opened =
     fs_cow\<lparr>page_cache := [(1, minode_example)], last_fd_alloced := 4,
            fd_info_map := [(4, \<lparr>inode_fd = 1, path_fd = ''/src/f''\<rparr>)],
            inode_to_open_fds_map := [(1, {4})]\<rparr>"

definition cow_written :: CuttleFS where
  "cow_written =
     cow_opened\<lparr>
        page_cache := [(1, minode_example\<lparr>mtime := 1, size_mi := 1, offset_to_page := [(0, 0)]\<rparr>)],
        heap := (\<lambda>r. Page_init 0 0)
          (0 := \<lparr>inode_pg = 1, offset = 0, content = CHR ''a'' # replicate 4095 zero_byte,
                 flag_dirty = True\<rparr>),
        next_ref := 1\<rparr>"

definition cow_committed :: "bytes \<Rightarrow> CuttleFS" where
  "cow_committed B =
     cow_written\<lparr>
        block_manager :=
          \<lparr>size_bm = 4096, free_list = [], largest_block_num = 1,
           faulty_paths = [(''/f'', [(0, \<lparr>seq = ''wX'', idx = 0, end_idx = 1, termchar = CHR ''x''\<rparr>)])],
           backing = B,
           bwrite_log = [\<lparr>msg_block = 0, msg_path = ''/f'', msg_offset = 0, bio_success = True\<rparr>]\<rparr>,
        page_cache := [(1, minode_example\<lparr>mtime := 1, size_mi := 1, offset_to_page := [(0, 0)],
                                          offset_to_block := [(0, 0)]\<rparr>)],
        heap := (\<lambda>r. Page_init 0 0)
          (0 := \<lparr>inode_pg = 1, offset = 0, content = CHR ''a'' # replicate 4095 zero_byte,
                 flag_dirty = False\<rparr>),
        host := [(''/src/f'', \<lparr>st_ino = 1,
           meta = \<lparr>meta_size = 1, meta_atime = 0, meta_mtime = 1,
                   meta_offset_to_block = [(0, 0)]\<rparr>\<rparr>)]\<rparr>"

definition cow_truncated :: "bytes \<Rightarrow> CuttleFS" where
  "cow_truncated B =
     (cow_committed B)\<lparr>
        block_manager := (block_manager (cow_committed B))\<lparr>free_list := [0]\<rparr>,
        page_cache := [(1, minode_example\<lparr>mtime := 1\<rparr>)]\<rparr>"

definition cow_rewritten :: "bytes \<Rightarrow> CuttleFS" where
  "cow_rewritten B =
     (cow_truncated B)\<lparr>
        page_cache := [(1, minode_example\<lparr>mtime := 2, size_mi := 1, offset_to_page := [(0, 1)]\<rparr>)],
        heap := (heap (cow_truncated B))
          (1 := \<lparr>inode_pg = 1, offset = 0, content = CHR ''b'' # replicate 4095 zero_byte,
                 flag_dirty = True\<rparr>),
        next_ref := 2\<rparr>"












section \<open>Verified properties\<close>

lemma next_wf: "wf_seq sq \<Longrightarrow> next sq = Inr (advance sq, outcome sq)"
  by (auto simp: wf_seq_def next_def advance_def outcome_def py_index_def Let_def)


lemma bwrite_sector_step:
  assumes "\<And>sq. map_of (offset_seq_map s) (file_offset s) = Some sq \<Longrightarrow> wf_seq sq"
  shows "\<exists>s1. bwrite_sector data i s = Inr s1 \<and>
           fp s1 = (if fails_at (map_of (offset_seq_map s)) (file_offset s) then fp s
                    else pwrite (fp s) (take 512 (drop (i * 512) data)) (bfile_offset s)) \<and>
           success s1 = (success s \<and> \<not> fails_at (map_of (offset_seq_map s)) (file_offset s)) \<and>
           map_of (offset_seq_map s1) =
             (\<lambda>q. if q = file_offset s then map_option advance (map_of (offset_seq_map s) q)
                  else map_of (offset_seq_map s) q) \<and>
           bfile_offset s1 = bfile_offset s + 512 \<and> file_offset s1 = file_offset s + 512"
proof (cases "map_of (offset_seq_map s) (file_offset s)")
  case None
  then show ?thesis
    by (auto simp: bwrite_sector_def fails_at_def fun_eq_iff)
next
  case (Some sq)
  then have "next sq = Inr (advance sq, outcome sq)" using assms next_wf by blast
  with Some show ?thesis
    by (auto simp: bwrite_sector_def fails_at_def fun_eq_iff update_conv')
qed

lemma bwrite_sectors_upt:
  assumes "\<forall>i sq. k \<le> i \<and> i < n \<and> map_of (offset_seq_map s) (off + int i * 512) = Some sq \<longrightarrow> wf_seq sq"
    and "bfile_offset s = base + k * 512" and "file_offset s = off + int k * 512"
  shows "\<exists>s'. bwrite_sectors data [k..<n] s = Inr s' \<and>
           fp s' = foldl (sector_step (map_of (offset_seq_map s)) data base off) (fp s) [k..<n] \<and>
           success s' = (success s \<and> (\<forall>i. k \<le> i \<and> i < n \<longrightarrow>
               \<not> fails_at (map_of (offset_seq_map s)) (off + int i * 512))) \<and>
           (\<forall>q. map_of (offset_seq_map s') q =
                (if \<exists>i. k \<le> i \<and> i < n \<and> q = off + int i * 512
                 then map_option advance (map_of (offset_seq_map s) q)
                 else map_of (offset_seq_map s) q)) \<and>
           bfile_offset s' = base + (max k n) * 512"
  using assms
proof (induction "n - k" arbitrary: k s)
  case 0
  then show ?case by (auto simp: max_def)
next
  case (Suc d)
  then have kn: "k < n" by simp
  have upt: "[k..<n] = k # [Suc k..<n]" using kn by (simp add: upt_conv_Cons)
  let ?m = "map_of (offset_seq_map s)"
  have wfk: "\<And>sq. ?m (file_offset s) = Some sq \<Longrightarrow> wf_seq sq"
    using Suc.prems(1) kn Suc.prems(3) by (metis le_refl)
  from bwrite_sector_step[of s data k, OF wfk] obtain s1 where
    s1: "bwrite_sector data k s = Inr s1"
    and fp1: "fp s1 = (if fails_at ?m (file_offset s) then fp s
                    else pwrite (fp s) (take 512 (drop (k * 512) data)) (bfile_offset s))"
    and su1: "success s1 = (success s \<and> \<not> fails_at ?m (file_offset s))"
    and m1: "map_of (offset_seq_map s1) =
             (\<lambda>q. if q = file_offset s then map_option advance (?m q) else ?m q)"
    and b1: "bfile_offset s1 = bfile_offset s + 512" and f1: "file_offset s1 = file_offset s + 512"
    by blast
  have same: "\<And>i. Suc k \<le> i \<Longrightarrow> map_of (offset_seq_map s1) (off + int i * 512) = ?m (off + int i * 512)"
    using m1 Suc.prems(3) by auto
  have d: "d = n - Suc k" using Suc.hyps(2) by simp
  have wf1: "\<forall>i sq. Suc k \<le> i \<and> i < n \<and> map_of (offset_seq_map s1) (off + int i * 512) = Some sq \<longrightarrow> wf_seq sq"
    using same Suc.prems(1) by (metis Suc_leD)
  have b1': "bfile_offset s1 = base + Suc k * 512" using b1 Suc.prems(2) by simp
  have f1': "file_offset s1 = off + int (Suc k) * 512" using f1 Suc.prems(3) by simp
  from Suc.hyps(1)[OF d wf1 b1' f1'] obtain s' where
    r: "bwrite_sectors data [Suc k..<n] s1 = Inr s'"
    and fp': "fp s' = foldl (sector_step (map_of (offset_seq_map s1)) data base off) (fp s1) [Suc k..<n]"
    and su': "success s' = (success s1 \<and> (\<forall>i. Suc k \<le> i \<and> i < n \<longrightarrow>
               \<not> fails_at (map_of (offset_seq_map s1)) (off + int i * 512)))"
    and m': "\<forall>q. map_of (offset_seq_map s') q =
                (if \<exists>i. Suc k \<le> i \<and> i < n \<and> q = off + int i * 512
                 then map_option advance (map_of (offset_seq_map s1) q)
                 else map_of (offset_seq_map s1) q)"
    and b': "bfile_offset s' = base + (max (Suc k) n) * 512"
    by (elim exE conjE) 
  have step_eq: "\<And>f i. i \<in> set [Suc k..<n] \<Longrightarrow>
       sector_step (map_of (offset_seq_map s1)) data base off f i = sector_step ?m data base off f i"
    using same by (simp add: sector_step_def fails_at_def)
  have fold_eq: "foldl (sector_step (map_of (offset_seq_map s1)) data base off) (fp s1) [Suc k..<n]
        = foldl (sector_step ?m data base off) (fp s1) [Suc k..<n]"
    by (rule foldl_cong) (use step_eq in auto)
  have fp1': "fp s1 = sector_step ?m data base off (fp s) k"
    using fp1 Suc.prems(2,3) by (simp add: sector_step_def)
  have fails_eq: "\<And>i. Suc k \<le> i \<Longrightarrow> fails_at (map_of (offset_seq_map s1)) (off + int i * 512) = fails_at ?m (off + int i * 512)"
    using same by (simp add: fails_at_def)
  have A: "bwrite_sectors data [k..<n] s = Inr s'" using upt s1 r by simp
  have B: "fp s' = foldl (sector_step ?m data base off) (fp s) [k..<n]"
    using fp' fold_eq fp1' upt by simp
  have C: "success s' = (success s \<and> (\<forall>i. k \<le> i \<and> i < n \<longrightarrow> \<not> fails_at ?m (off + int i * 512)))"
  proof -
    have "(\<forall>i. k \<le> i \<and> i < n \<longrightarrow> \<not> fails_at ?m (off + int i * 512)) =
          (\<not> fails_at ?m (off + int k * 512) \<and> (\<forall>i. Suc k \<le> i \<and> i < n \<longrightarrow> \<not> fails_at ?m (off + int i * 512)))"
      using kn by (metis Suc_leD Suc_leI le_eq_less_or_eq)
    then show ?thesis using su' su1 fails_eq Suc.prems(3) by auto
  qed
  have D: "\<forall>q. map_of (offset_seq_map s') q =
                (if \<exists>i. k \<le> i \<and> i < n \<and> q = off + int i * 512
                 then map_option advance (?m q) else ?m q)"
  proof
    fix q
    show "map_of (offset_seq_map s') q =
                (if \<exists>i. k \<le> i \<and> i < n \<and> q = off + int i * 512
                 then map_option advance (?m q) else ?m q)"
    proof (cases "q = off + int k * 512")
      case True
      then have "\<not> (\<exists>i. Suc k \<le> i \<and> i < n \<and> q = off + int i * 512)" by auto
      then have "map_of (offset_seq_map s') q = map_of (offset_seq_map s1) q" using m'[rule_format, of q] by auto
      also have "\<dots> = map_option advance (?m q)" using m1 True Suc.prems(3) by simp
      finally show ?thesis using True kn by auto
    next
      case False
      have e: "(\<exists>i. k \<le> i \<and> i < n \<and> q = off + int i * 512) = (\<exists>i. Suc k \<le> i \<and> i < n \<and> q = off + int i * 512)"
        using False by (metis Suc_leD Suc_leI le_eq_less_or_eq)
      have "map_of (offset_seq_map s1) q = ?m q" using m1 False Suc.prems(3) by simp
      then show ?thesis using m'[rule_format, of q] e by auto
    qed
  qed
  have E: "bfile_offset s' = base + (max k n) * 512" using b' kn by (simp add: max_def)
  show ?case using A B C D E by blast
qed


lemma FailSequence_init_wf: "FailSequence_init s = Inr sq \<Longrightarrow> wf_seq sq"
  by (auto simp: FailSequence_init_def wf_seq_def split: sum.splits)

lemma bwrite_result:
  assumes len: "length data = PAGE_SZ"
    and wf: "\<forall>i sq. i < PAGE_SZ div SECTOR_SZ \<and> oracle_at bm p (off + int i * int SECTOR_SZ) = Some sq
               \<longrightarrow> wf_seq sq"
  shows "\<exists>bm'. bwrite bm bnum data (p, off) =
                  Inr (bm', \<forall>i < PAGE_SZ div SECTOR_SZ. \<not> sector_fails bm p off i) \<and>
           (\<forall>q. oracle_at bm' p q =
                  (if \<exists>i < PAGE_SZ div SECTOR_SZ. q = off + int i * int SECTOR_SZ
                   then map_option advance (oracle_at bm p q) else oracle_at bm p q)) \<and>
           (\<forall>p' q. p' \<noteq> p \<longrightarrow> oracle_at bm' p' q = oracle_at bm p' q) \<and>
           backing bm' =
             foldl (\<lambda>f i. if sector_fails bm p off i then f
                          else pwrite f (take SECTOR_SZ (drop (i * SECTOR_SZ) data))
                                 (bnum * PAGE_SZ + i * SECTOR_SZ))
               (backing bm) [0..<PAGE_SZ div SECTOR_SZ] \<and>
           free_list bm' = free_list bm \<and> largest_block_num bm' = largest_block_num bm \<and>
           bwrite_log bm' = bwrite_log bm @
             [\<lparr>msg_block = bnum, msg_path = p, msg_offset = off,
               bio_success = (\<forall>i < PAGE_SZ div SECTOR_SZ. \<not> sector_fails bm p off i)\<rparr>]"
proof -
  define m0 where "m0 = (case map_of (faulty_paths bm) p of None \<Rightarrow> [] | Some m \<Rightarrow> m)"
  define s0 where "s0 = \<lparr>offset_seq_map = m0, fp = backing bm, success = True,
                         bfile_offset = bnum * PAGE_SZ, file_offset = off\<rparr>"
  have sel0: "offset_seq_map s0 = m0" "fp s0 = backing bm" "success s0 = True"
      "bfile_offset s0 = bnum * PAGE_SZ" "file_offset s0 = off"
    by (simp_all add: s0_def)
  have or: "\<And>q. oracle_at bm p q = map_of m0 q"
    by (simp add: oracle_at_def m0_def split: option.splits)
  have wf0: "\<forall>i sq. 0 \<le> i \<and> i < 8 \<and> map_of (offset_seq_map s0) (off + int i * 512) = Some sq \<longrightarrow> wf_seq sq"
    using wf or by (simp add: s0_def PAGE_SZ_def SECTOR_SZ_def)
  have fails: "\<And>i. i < 8 \<Longrightarrow> sector_fails bm p off i = fails_at (map_of m0) (off + int i * 512)"
  proof -
    fix i :: nat assume i: "i < 8"
    show "sector_fails bm p off i = fails_at (map_of m0) (off + int i * 512)"
    proof (cases "map_of m0 (off + int i * 512)")
      case None
      then show ?thesis using or by (simp add: sector_fails_def fails_at_def SECTOR_SZ_def)
    next
      case (Some sq)
      then have "wf_seq sq" using wf0 i by (simp add: s0_def)
      then show ?thesis using Some or next_wf[of sq]
        by (simp add: sector_fails_def fails_at_def SECTOR_SZ_def)
    qed
  qed
  have "\<exists>s'. bwrite_sectors data [0..<8] s0 = Inr s' \<and>
      fp s' = foldl (sector_step (map_of m0) data (bnum * PAGE_SZ) off) (backing bm) [0..<8] \<and>
      success s' = (\<forall>i. i < 8 \<longrightarrow> \<not> fails_at (map_of m0) (off + int i * 512)) \<and>
      (\<forall>q. map_of (offset_seq_map s') q =
                (if \<exists>i. i < 8 \<and> q = off + int i * 512
                 then map_option advance (map_of m0 q) else map_of m0 q)) \<and>
      bfile_offset s' = bnum * PAGE_SZ + 8 * 512"
    using bwrite_sectors_upt[of 0 8 s0 off "bnum * PAGE_SZ" data, OF wf0] by (simp add: sel0 cong: if_cong)
  then obtain s' where
    r: "bwrite_sectors data [0..<8] s0 = Inr s'"
    and fp': "fp s' = foldl (sector_step (map_of m0) data (bnum * PAGE_SZ) off) (backing bm) [0..<8]"
    and su': "success s' = (\<forall>i. i < 8 \<longrightarrow> \<not> fails_at (map_of m0) (off + int i * 512))"
    and m': "\<forall>q. map_of (offset_seq_map s') q =
                (if \<exists>i. i < 8 \<and> q = off + int i * 512
                 then map_option advance (map_of m0 q) else map_of m0 q)"
    by blast
  have su: "success s' = (\<forall>i < 8. \<not> sector_fails bm p off i)"
    using su' fails by auto
  have fold: "foldl (sector_step (map_of m0) data (bnum * PAGE_SZ) off) (backing bm) [0..<8] =
      foldl (\<lambda>f i. if sector_fails bm p off i then f
                          else pwrite f (take 512 (drop (i * 512) data))
                                 (bnum * PAGE_SZ + i * 512)) (backing bm) [0..<8]"
    by (rule foldl_cong) (auto simp: sector_step_def fails)
  define bm' where "bm' = bm\<lparr>faulty_paths :=
                          (case map_of (faulty_paths bm) p of
                             None \<Rightarrow> faulty_paths bm
                           | Some _ \<Rightarrow> AList.update p (offset_seq_map s') (faulty_paths bm)),
                        backing := fp s',
                        bwrite_log := bwrite_log bm @
                          [\<lparr>msg_block = bnum, msg_path = p, msg_offset = off,
                            bio_success = success s'\<rparr>],
                        size_bm := (if bfile_offset s' \<ge> size_bm bm then bfile_offset s'
                                    else size_bm bm)\<rparr>"
  have n8: "PAGE_SZ div SECTOR_SZ = 8" by (simp add: PAGE_SZ_def SECTOR_SZ_def)
  have bw: "bwrite bm bnum data (p, off) = Inr (bm', success s')"
    using len r by (simp add: bwrite_def Let_def s0_def m0_def n8 bm'_def)
  have c1: "bwrite bm bnum data (p, off) =
                  Inr (bm', \<forall>i < PAGE_SZ div SECTOR_SZ. \<not> sector_fails bm p off i)"
    using bw su by (simp add: n8)
  have c2: "\<forall>q. oracle_at bm' p q =
                  (if \<exists>i < PAGE_SZ div SECTOR_SZ. q = off + int i * int SECTOR_SZ
                   then map_option advance (oracle_at bm p q) else oracle_at bm p q)"
  proof
    fix q
    have "oracle_at bm' p q = (if \<exists>i < 8. q = off + int i * 512
                   then map_option advance (oracle_at bm p q) else oracle_at bm p q)"
    proof (cases "map_of (faulty_paths bm) p")
      case None
      then show ?thesis by (simp add: oracle_at_def bm'_def)
    next
      case (Some m)
      then have "oracle_at bm' p q = map_of (offset_seq_map s') q"
        by (simp add: oracle_at_def update_conv' bm'_def)
      then show ?thesis using m'[rule_format, of q] or by auto
    qed
    then show "oracle_at bm' p q =
                  (if \<exists>i < PAGE_SZ div SECTOR_SZ. q = off + int i * int SECTOR_SZ
                   then map_option advance (oracle_at bm p q) else oracle_at bm p q)"
      by (simp add: PAGE_SZ_def SECTOR_SZ_def)
  qed
  have c3: "\<forall>p' q. p' \<noteq> p \<longrightarrow> oracle_at bm' p' q = oracle_at bm p' q"
    by (auto simp: oracle_at_def update_conv' bm'_def split: option.splits)
  have c4: "backing bm' =
             foldl (\<lambda>f i. if sector_fails bm p off i then f
                          else pwrite f (take SECTOR_SZ (drop (i * SECTOR_SZ) data))
                                 (bnum * PAGE_SZ + i * SECTOR_SZ))
               (backing bm) [0..<PAGE_SZ div SECTOR_SZ]"
    using fp' fold by (simp add: bm'_def PAGE_SZ_def SECTOR_SZ_def cong: if_cong)
  have c5: "free_list bm' = free_list bm" "largest_block_num bm' = largest_block_num bm"
    by (simp_all add: bm'_def)
  have c6: "bwrite_log bm' = bwrite_log bm @
             [\<lparr>msg_block = bnum, msg_path = p, msg_offset = off,
               bio_success = (\<forall>i < PAGE_SZ div SECTOR_SZ. \<not> sector_fails bm p off i)\<rparr>]"
    using su by (simp add: bm'_def n8)
  show ?thesis using c1 c2 c3 c4 c5 c6 by blast
qed

lemma oracle_at_example:
  "oracle_at bm_example ''/f'' q =
     (if q = 512 then Some \<lparr>seq = ''xW'', idx = - 1, end_idx = 1, termchar = CHR ''w''\<rparr> else None)"
  by (simp add: oracle_at_def bm_example_def)

lemma sector_fails_example: "sector_fails bm_example ''/f'' 0 i = (i = 1)"
  by (auto simp: sector_fails_def oracle_at_example SECTOR_SZ_def next_def py_index_def Let_def)

lemma upt_8: "[0..<8] = [0, 1, 2, 3, 4, 5, 6, 7::nat]"
  by (simp add: upt_rec)

lemma replicate_3072:
  "replicate 512 x @ replicate 512 x @ replicate 512 x @ replicate 512 x @ replicate 512 x @
   replicate 512 x = replicate 3072 x"
  by (simp only: replicate_add[symmetric]) simp

lemma backing_example:
  "foldl (\<lambda>f i. if sector_fails bm_example ''/f'' 0 i then f
                          else pwrite f (take SECTOR_SZ (drop (i * SECTOR_SZ) data_example))
                                 (0 * PAGE_SZ + i * SECTOR_SZ))
               (backing bm_example) [0..<PAGE_SZ div SECTOR_SZ]
   = replicate 512 (CHR ''a'') @ replicate 512 zero_byte @ replicate 3072 (CHR ''a'')"
  apply (simp only: sector_fails_example)
  apply (simp add: PAGE_SZ_def SECTOR_SZ_def upt_8 pwrite_def data_example_def bm_example_def)
  apply (simp only: replicate_3072)
  done

text \<open>
  C6. For \<open>bwrite(bnum, data, (path, off))\<close> with \<open>len(data) = PAGE_SZ\<close> (and oracles as the
  constructor and \<open>next\<close> leave them): the block is written in \<open>PAGE_SZ div SECTOR_SZ\<close>
  sectors; the oracle installed at \<open>faulty_paths[path][off + i * SECTOR_SZ]\<close>, if any, is
  advanced exactly once and no other oracle is touched; the backing file is the result of
  the positional writes of the 512-byte slices at \<open>bnum * PAGE_SZ + i * SECTOR_SZ\<close>, in
  order, with the write of every sector whose oracle yields \<open>'x'\<close> left out; and the call
  returns \<open>True\<close> exactly when no sector yielded \<open>'x'\<close>.
\<close>

theorem bwrite_sector_by_sector:
  assumes "length data = PAGE_SZ"
    and "\<forall>i sq. i < PAGE_SZ div SECTOR_SZ \<and> oracle_at bm p (off + int i * int SECTOR_SZ) = Some sq
               \<longrightarrow> wf_seq sq"
  shows "\<exists>bm'. bwrite bm bnum data (p, off) =
                  Inr (bm', \<forall>i < PAGE_SZ div SECTOR_SZ. \<not> sector_fails bm p off i) \<and>
           (\<forall>q. oracle_at bm' p q =
                  (if \<exists>i < PAGE_SZ div SECTOR_SZ. q = off + int i * int SECTOR_SZ
                   then map_option advance (oracle_at bm p q) else oracle_at bm p q)) \<and>
           (\<forall>p' q. p' \<noteq> p \<longrightarrow> oracle_at bm' p' q = oracle_at bm p' q) \<and>
           backing bm' =
             foldl (\<lambda>f i. if sector_fails bm p off i then f
                          else pwrite f (take SECTOR_SZ (drop (i * SECTOR_SZ) data))
                                 (bnum * PAGE_SZ + i * SECTOR_SZ))
               (backing bm) [0..<PAGE_SZ div SECTOR_SZ]"
  using bwrite_result[OF assms, of bnum] by blast

theorem bwrite_sector_by_sector_witness:
  "length data_example = PAGE_SZ \<and>
   (\<exists>bm'. bwrite bm_example 0 data_example (''/f'', 0) = Inr (bm', False) \<and>
      oracle_at bm' ''/f'' 512 = Some \<lparr>seq = ''xW'', idx = 0, end_idx = 1, termchar = CHR ''w''\<rparr> \<and>
      backing bm' = replicate 512 (CHR ''a'') @ replicate 512 zero_byte @ replicate 3072 (CHR ''a''))"
proof -
  have h1: "length data_example = PAGE_SZ" by (simp add: data_example_def)
  have h2: "\<forall>i sq. i < PAGE_SZ div SECTOR_SZ \<and>
       oracle_at bm_example ''/f'' (0 + int i * int SECTOR_SZ) = Some sq \<longrightarrow> wf_seq sq"
    by (auto simp: oracle_at_example wf_seq_def split: if_splits)
  have f: "(\<forall>i < PAGE_SZ div SECTOR_SZ. \<not> sector_fails bm_example ''/f'' 0 i) = False"
    by (auto simp: sector_fails_example PAGE_SZ_def SECTOR_SZ_def)
  have e: "(\<exists>i < PAGE_SZ div SECTOR_SZ. (512::int) = 0 + int i * int SECTOR_SZ)"
    by (rule exI[of _ 1]) (simp add: PAGE_SZ_def SECTOR_SZ_def)
  from bwrite_sector_by_sector[OF h1 h2, of 0] obtain bm' where
    a: "bwrite bm_example 0 data_example (''/f'', 0) =
          Inr (bm', \<forall>i < PAGE_SZ div SECTOR_SZ. \<not> sector_fails bm_example ''/f'' 0 i)"
    and b: "\<forall>q. oracle_at bm' ''/f'' q =
                  (if \<exists>i < PAGE_SZ div SECTOR_SZ. q = 0 + int i * int SECTOR_SZ
                   then map_option advance (oracle_at bm_example ''/f'' q) else oracle_at bm_example ''/f'' q)"
    and c: "backing bm' =
             foldl (\<lambda>f i. if sector_fails bm_example ''/f'' 0 i then f
                          else pwrite f (take SECTOR_SZ (drop (i * SECTOR_SZ) data_example))
                                 (0 * PAGE_SZ + i * SECTOR_SZ))
               (backing bm_example) [0..<PAGE_SZ div SECTOR_SZ]"
    by blast
  have a': "bwrite bm_example 0 data_example (''/f'', 0) = Inr (bm', False)"
    using a f by simp
  have b': "oracle_at bm' ''/f'' 512 = Some \<lparr>seq = ''xW'', idx = 0, end_idx = 1, termchar = CHR ''w''\<rparr>"
    using b[rule_format, of 512] e by (simp add: oracle_at_example advance_def)
  have c': "backing bm' = replicate 512 (CHR ''a'') @ replicate 512 zero_byte @ replicate 3072 (CHR ''a'')"
    using c backing_example by simp
  show ?thesis using h1 a' b' c' by blast
qed

lemma minode_for_sync_fds:
  "minode_for st ino p rp = Inr (st1, m) \<Longrightarrow> sync_fds st1 = sync_fds st"
  by (auto simp: minode_for_def split: option.splits sum.splits)

lemma open_sync_example:
  "open_file (fs_example cls) ''/f'' flags_sync = Inr (fs_opened cls {4}, 4)"
  by (simp add: open_file_def fs_example_def CuttleFS_init_def flags_sync_def realpath_fs_def minode_for_def
      MemInode_init_def alloc_fd_def Let_def fs_opened_def minode_example_def)

lemma open_plain_example:
  "open_file (fs_example cls) ''/f'' flags_plain = Inr (fs_opened cls {}, 4)"
  by (simp add: open_file_def fs_example_def CuttleFS_init_def flags_plain_def realpath_fs_def minode_for_def
      MemInode_init_def alloc_fd_def Let_def fs_opened_def minode_example_def)

lemma write_plain_example:
  "write (fs_opened cls {}) ''/f'' (replicate 8192 (CHR ''a'')) 0 4 1 = Inr (fs_written cls, 8192)"
  by (simp add: write_def fs_opened_def fs_example_def CuttleFS_init_def minode_for_def
      write_loop.simps get_page_for_offset_def Let_def minode_example_def PAGE_SZ_def Page_init_def
      slice_def slice_assign_def fs_written_def minode_written_def)

text \<open>
  C1 (the code departs from the claim). The claim has \<open>write\<close>, for a descriptor in
  \<open>sync_fds\<close> and non-empty data, hand the pages it wrote to the policy's \<open>on_sync_write\<close>
  and return that result if negative, else the byte count. The code asks the facade
  itself for \<open>on_sync_write\<close>: every such call raises, whatever the state, the path, the
  offset and the time; it returns neither a byte count nor a policy result.
\<close>

theorem write_sync_fd_raises:
  assumes "fd \<in> sync_fds st" and "data \<noteq> []"
  shows "\<exists>e. write st p data off fd now = Inl e"
proof (cases "map_of (fd_info_map st) fd")
  case None
  then show ?thesis by (simp add: write_def)
next
  case (Some fd_info)
  show ?thesis
  proof (cases "minode_for st (inode_fd fd_info) p (path_fd fd_info)")
    case (Inl e)
    then show ?thesis using Some by (simp add: write_def)
  next
    case (Inr a)
    then obtain st1 m where a: "a = (st1, m)" by (cases a)
    have s: "fd \<in> sync_fds st1" using minode_for_sync_fds Inr a assms(1) by blast
    show ?thesis using Some Inr a s assms(2)
      by (auto simp: write_def Let_def split: sum.splits prod.splits)
  qed
qed

theorem write_sync_fd_raises_witness:
  "open_file (fs_example Ext4Ordered) ''/f'' flags_sync = Inr (fs_opened Ext4Ordered {4}, 4) \<and>
   (\<exists>e. write (fs_opened Ext4Ordered {4}) ''/f'' ''a'' 0 4 1 = Inl e) \<and>
   write (fs_opened Ext4Ordered {4}) ''/f'' ''a'' 0 4 1 = Inl AttributeError"
proof -
  have h1: "4 \<in> sync_fds (fs_opened Ext4Ordered {4})" by (simp add: fs_opened_def)
  have h2: "''a'' \<noteq> []" by simp
  have e: "write (fs_opened Ext4Ordered {4}) ''/f'' ''a'' 0 4 1 = Inl AttributeError"
    by (simp add: write_def fs_opened_def fs_example_def CuttleFS_init_def minode_for_def
      write_loop.simps get_page_for_offset_def Let_def minode_example_def PAGE_SZ_def)
  show ?thesis
    using write_sync_fd_raises[OF h1 h2, of "''/f''" 0 1] e open_sync_example by simp
qed

lemma get_page_for_offset_size:
  "get_page_for_offset st m off = Inr (st', m', r) \<Longrightarrow> size_mi m' = size_mi m"
  by (auto simp: get_page_for_offset_def Let_def split: if_splits option.splits sum.splits)

text \<open>
  C9 (the code departs from the claim). The claim has \<open>truncate(path, length)\<close> with
  \<open>0 < length < size\<close> drop the pages beyond the page of byte \<open>length - 1\<close>, deallocate
  their blocks and set the size. As soon as a page-aligned offset beyond that page lies
  below the old size, the code raises instead (the loop addresses \<open>offset_to_page\<close> and
  \<open>offset_to_block\<close> on the facade, not on the inode): nothing is dropped or deallocated
  and the size is not set.
\<close>

theorem truncate_shrink_raises:
  assumes "map_of (host st) (realpath_fs st p) = Some f"
    and "map_of (page_cache st) (st_ino f) = Some m"
    and "0 < len" and "len < size_mi m"
    and "((len - 1) div int PAGE_SZ + 1) * int PAGE_SZ < size_mi m"
  shows "\<exists>e. truncate st p len = Inl e"
proof (cases "get_page_for_offset st m ((len - 1) div int PAGE_SZ * int PAGE_SZ)")
  case (Inl e)
  then show ?thesis using assms
    by (simp add: truncate_def minode_for_def Let_def)
next
  case (Inr a)
  then obtain st2 m2 r where a: "a = (st2, m2, r)" by (cases a) auto
  have "size_mi m2 = size_mi m" using Inr a get_page_for_offset_size by blast
  then show ?thesis using assms Inr a
    by (simp add: truncate_def minode_for_def Let_def)
qed

theorem truncate_shrink_raises_witness:
  "write (fs_opened Ext4Ordered {}) ''/f'' (replicate 8192 (CHR ''a'')) 0 4 1
     = Inr (fs_written Ext4Ordered, 8192) \<and>
   (\<exists>e. truncate (fs_written Ext4Ordered) ''/f'' 1 = Inl e) \<and>
   truncate (fs_written Ext4Ordered) ''/f'' 1 = Inl AttributeError"
proof -
  let ?f = "\<lparr>st_ino = 1,
           meta = \<lparr>meta_size = 0, meta_atime = 0, meta_mtime = 0, meta_offset_to_block = []\<rparr>\<rparr>"
  have h1: "map_of (host (fs_written Ext4Ordered)) (realpath_fs (fs_written Ext4Ordered) ''/f'') = Some ?f"
    by (simp add: fs_written_def fs_opened_def fs_example_def CuttleFS_init_def realpath_fs_def)
  have h2: "map_of (page_cache (fs_written Ext4Ordered)) (st_ino ?f) = Some minode_written"
    by (simp add: fs_written_def)
  have h3: "(0::int) < 1" by simp
  have h4: "1 < size_mi minode_written" by (simp add: minode_written_def)
  have h5: "((1 - 1) div int PAGE_SZ + 1) * int PAGE_SZ < size_mi minode_written"
    by (simp add: minode_written_def PAGE_SZ_def)
  have e: "truncate (fs_written Ext4Ordered) ''/f'' 1 = Inl AttributeError"
    by (simp add: truncate_def fs_written_def fs_opened_def fs_example_def CuttleFS_init_def
        realpath_fs_def minode_for_def minode_written_def minode_example_def
        get_page_for_offset_def Let_def PAGE_SZ_def)
  show ?thesis
    using truncate_shrink_raises[OF h1 h2 h3 h4 h5] e write_plain_example by simp
qed

text \<open>
  C3 (the code departs from the claim). The claim has \<open>on_sync_write\<close> of the ext4-data
  policy return 0 for a descriptor that is not owed a notification, even when a block
  write fails. The code passes the inode number to \<open>sync_meta\<close>: every such call raises,
  after the pages were written, and returns nothing.
\<close>

theorem Ext4Data_on_sync_write_raises:
  assumes "fsync_cls st = Ext4Data" and "\<not> should_notify_fd st fd ino"
  shows "\<exists>e. on_sync_write st fd ino m pages = Inl e"
  using assms
  by (auto simp: on_sync_write_def Ext4Data_on_sync_write_def split: sum.splits)






lemma m_frame_trans:
  "m1 = m\<lparr>offset_to_block := x\<rparr> \<Longrightarrow> m' = m1\<lparr>offset_to_block := y\<rparr> \<Longrightarrow>
   m' = m\<lparr>offset_to_block := y\<rparr>"
  by simp





lemma heap_sync_meta [simp]: "heap (sync_meta st m) = heap st"
  by (simp add: sync_meta_def Let_def split: option.splits)

lemma heap_add_fds_to_notify [simp]: "heap (add_fds_to_notify st ino) = heap st"
  by (simp add: add_fds_to_notify_def Let_def)

lemma heap_mark_fd_notified [simp]: "heap (mark_fd_notified st fd ino) = heap st"
  by (simp add: mark_fd_notified_def split: option.splits)


lemma sync_pages_example:
  "\<exists>st' m'. GenericFsync_sync_pages (fs_written cls) minode_written [0, 1] = Inr (st', m', - EIO) \<and>
      map bio_success (bwrite_log (block_manager st')) = [False, True] \<and>
      offset_to_block m' = [(0, 0), (4096, 1)]"
  apply (simp add: GenericFsync_sync_pages_def fs_written_def fs_opened_def fs_example_def CuttleFS_init_def
       minode_written_def minode_example_def alloc_block_def Let_def bm_example_def)
  apply (simp add: bwrite_def PAGE_SZ_def SECTOR_SZ_def
       upt_8 bwrite_sector_def next_def py_index_def pwrite_def Let_def)
  apply (simp add: alloc_block_def Let_def)
  apply (simp add: bwrite_def PAGE_SZ_def SECTOR_SZ_def
       upt_8 bwrite_sector_def next_def py_index_def pwrite_def Let_def)
  done


lemma should_notify_example: "\<not> should_notify_fd (fs_written cls) 4 1"
  by (simp add: should_notify_fd_def fs_written_def fs_opened_def fs_example_def CuttleFS_init_def)

theorem Ext4Data_on_sync_write_raises_witness:
  "fsync_cls (fs_written Ext4Data) = Ext4Data \<and>
   (\<exists>e. on_sync_write (fs_written Ext4Data) 4 1 minode_written [0, 1] = Inl e) \<and>
   on_sync_write (fs_written Ext4Data) 4 1 minode_written [0, 1] = Inl AttributeError"
proof -
  have h1: "fsync_cls (fs_written Ext4Data) = Ext4Data"
    by (simp add: fs_written_def fs_opened_def fs_example_def CuttleFS_init_def)
  obtain st' m' where
    sp: "GenericFsync_sync_pages (fs_written Ext4Data) minode_written [0, 1] = Inr (st', m', - EIO)"
    using sync_pages_example by blast
  have e: "on_sync_write (fs_written Ext4Data) 4 1 minode_written [0, 1] = Inl AttributeError"
    using h1 should_notify_example sp
    by (simp add: on_sync_write_def Ext4Data_on_sync_write_def)
  show ?thesis
    using Ext4Data_on_sync_write_raises[OF h1 should_notify_example, of minode_written "[0, 1]"] h1 e
    by simp
qed


lemma bwrite_log_append:
  "bwrite bm b d (p, off) = Inr (bm', ok) \<Longrightarrow>
   bwrite_log bm' = bwrite_log bm @ [\<lparr>msg_block = b, msg_path = p, msg_offset = off, bio_success = ok\<rparr>]"
  by (auto simp: bwrite_def Let_def split: if_splits sum.splits)


lemma Btrfs_sync_loop_frame:
  "Btrfs_sync_loop st m pages old_blocks new_blocks = Inr (st', m', r, old', new') \<Longrightarrow>
     st' = st\<lparr>block_manager := block_manager st', heap := heap st'\<rparr> \<and>
     (\<exists>lg. bwrite_log (block_manager st') = bwrite_log (block_manager st) @ lg \<and>
            r = (if \<forall>e\<in>set lg. bio_success e then 0 else - EIO))"
proof (induction pages arbitrary: st m old_blocks new_blocks)
  case Nil
  then show ?case by auto
next
  case (Cons q qs)
  show ?case
  proof (cases "flag_dirty (heap st q)")
    case False
    then have "Btrfs_sync_loop st m qs old_blocks new_blocks = Inr (st', m', r, old', new')"
      using Cons.prems by simp
    from Cons.IH[OF this] show ?thesis .
  next
    case True
    define old1 where "old1 = (case map_of (offset_to_block m) (offset (heap st q)) of
                    Some old_block \<Rightarrow> old_blocks @ [old_block] | None \<Rightarrow> old_blocks)"
    obtain bm1 block where al: "alloc_block (block_manager st) = (bm1, block)"
      by (cases "alloc_block (block_manager st)")
    define m1 where "m1 = m\<lparr>offset_to_block := AList.update (offset (heap st q)) block (offset_to_block m)\<rparr>"
    define st1 where "st1 = st\<lparr>block_manager := bm1,
                        heap := (heap st)(q := (heap st q)\<lparr>flag_dirty := False\<rparr>)\<rparr>"
    have lg1: "bwrite_log bm1 = bwrite_log (block_manager st)"
      using al by (auto simp: alloc_block_def split: if_splits)
    have step: "Btrfs_sync_loop st m (q # qs) old_blocks new_blocks =
       (case bwrite bm1 block (content (heap st q)) (path m1, offset (heap st q)) of
                Inl e \<Rightarrow> Inl e
              | Inr (bm2, bsuccess) \<Rightarrow>
                  if \<not> bsuccess
                  then Inr (st1\<lparr>block_manager := bm2\<rparr>, m1, - EIO, old1, new_blocks @ [block])
                  else Btrfs_sync_loop (st1\<lparr>block_manager := bm2\<rparr>) m1 qs old1 (new_blocks @ [block]))"
      unfolding old1_def m1_def st1_def using True al by (simp add: Let_def)
    show ?thesis
    proof (cases "bwrite bm1 block (content (heap st q)) (path m1, offset (heap st q))")
      case (Inl e)
      then show ?thesis using step Cons.prems by simp
    next
      case (Inr a)
      then obtain bm2 ok where a: "a = (bm2, ok)" by (cases a)
      let ?e1 = "\<lparr>msg_block = block, msg_path = path m1, msg_offset = offset (heap st q), bio_success = ok\<rparr>"
      have lg: "bwrite_log bm2 = bwrite_log bm1 @ [?e1]"
        using bwrite_log_append Inr a by blast
      show ?thesis
      proof (cases ok)
        case False
        then have eq: "st' = st1\<lparr>block_manager := bm2\<rparr>" "r = - EIO"
          using step Cons.prems Inr a by simp_all
        have c1: "st' = st\<lparr>block_manager := block_manager st', heap := heap st'\<rparr>"
          using eq by (simp add: st1_def)
        have c2: "bwrite_log (block_manager st') = bwrite_log (block_manager st) @ [?e1]"
          using eq lg lg1 by simp
        have c3: "r = (if \<forall>e\<in>set [?e1]. bio_success e then 0 else - EIO)"
          using eq False by simp
        show ?thesis using c1 c2 c3 by blast
      next
        case True
        then have "Btrfs_sync_loop (st1\<lparr>block_manager := bm2\<rparr>) m1 qs old1 (new_blocks @ [block])
                    = Inr (st', m', r, old', new')"
          using step Cons.prems Inr a by simp
        from Cons.IH[OF this] obtain lg2 where
          f: "st' = (st1\<lparr>block_manager := bm2\<rparr>)\<lparr>block_manager := block_manager st', heap := heap st'\<rparr>"
          and l: "bwrite_log (block_manager st') = bwrite_log bm2 @ lg2"
          and rr: "r = (if \<forall>e\<in>set lg2. bio_success e then 0 else - EIO)"
          by auto
        have c1: "st' = st\<lparr>block_manager := block_manager st', heap := heap st'\<rparr>"
          using f by (simp add: st1_def)
        have c2: "bwrite_log (block_manager st') = bwrite_log (block_manager st) @ (?e1 # lg2)"
          using l lg lg1 by simp
        have c3: "r = (if \<forall>e\<in>set (?e1 # lg2). bio_success e then 0 else - EIO)"
          using rr True by simp
        show ?thesis using c1 c2 c3 by blast
      qed
    qed
  qed
qed


lemma block_manager_sync_meta [simp]: "block_manager (sync_meta st m) = block_manager st"
  by (simp add: sync_meta_def Let_def split: option.splits)

lemma block_manager_add_fds_to_notify [simp]: "block_manager (add_fds_to_notify st ino) = block_manager st"
  by (simp add: add_fds_to_notify_def Let_def)

lemma block_manager_mark_fd_notified [simp]: "block_manager (mark_fd_notified st fd ino) = block_manager st"
  by (simp add: mark_fd_notified_def split: option.splits)

lemma failed_sync_meta [simp]: "failed_inodes_fd_map (sync_meta st m) = failed_inodes_fd_map st"
  by (simp add: sync_meta_def Let_def split: option.splits)

lemma bwrite_log_dealloc [simp]: "bwrite_log (foldl dealloc_block bm bs) = bwrite_log bm"
  by (induction bs arbitrary: bm) (simp_all add: dealloc_block_def)





lemma Btrfs_sync_pages_frame:
  assumes "Btrfs_sync_pages st m pages = Inr (sa, ma, ret)"
  shows "\<exists>lg. bwrite_log (block_manager sa) = bwrite_log (block_manager st) @ lg \<and>
            ret = (if \<forall>e\<in>set lg. bio_success e then 0 else - EIO)"
proof (cases "Btrfs_sync_loop st m pages [] []")
  case (Inl e)
  then show ?thesis using assms by (simp add: Btrfs_sync_pages_def)
next
  case (Inr a)
  then obtain s1 m1 r old new where a: "a = (s1, m1, r, old, new)" by (cases a) auto
  from Btrfs_sync_loop_frame[OF Inr[unfolded a]] obtain lg where
    "bwrite_log (block_manager s1) = bwrite_log (block_manager st) @ lg"
    "r = (if \<forall>e\<in>set lg. bio_success e then 0 else - EIO)"
    by auto
  moreover have "bwrite_log (block_manager sa) = bwrite_log (block_manager s1)" "ret = r"
    using assms Inr a by (auto simp: Btrfs_sync_pages_def Let_def)
  ultimately show ?thesis by auto
qed


















lemma Btrfs_sync_loop_frame2:
  "Btrfs_sync_loop st m pages old_blocks new_blocks = Inr (st', m', r, old', new') \<Longrightarrow>
     m' = m\<lparr>offset_to_block := offset_to_block m'\<rparr> \<and>
     (\<forall>q. offset (heap st' q) = offset (heap st q))"
proof (induction pages arbitrary: st m old_blocks new_blocks)
  case Nil
  then show ?case by auto
next
  case (Cons q qs)
  show ?case
  proof (cases "flag_dirty (heap st q)")
    case False
    then have "Btrfs_sync_loop st m qs old_blocks new_blocks = Inr (st', m', r, old', new')"
      using Cons.prems by simp
    from Cons.IH[OF this] show ?thesis .
  next
    case True
    define old1 where "old1 = (case map_of (offset_to_block m) (offset (heap st q)) of
                    Some old_block \<Rightarrow> old_blocks @ [old_block] | None \<Rightarrow> old_blocks)"
    obtain bm1 block where al: "alloc_block (block_manager st) = (bm1, block)"
      by (cases "alloc_block (block_manager st)")
    define m1 where "m1 = m\<lparr>offset_to_block := AList.update (offset (heap st q)) block (offset_to_block m)\<rparr>"
    define st1 where "st1 = st\<lparr>block_manager := bm1,
                        heap := (heap st)(q := (heap st q)\<lparr>flag_dirty := False\<rparr>)\<rparr>"
    have step: "Btrfs_sync_loop st m (q # qs) old_blocks new_blocks =
       (case bwrite bm1 block (content (heap st q)) (path m1, offset (heap st q)) of
                Inl e \<Rightarrow> Inl e
              | Inr (bm2, bsuccess) \<Rightarrow>
                  if \<not> bsuccess
                  then Inr (st1\<lparr>block_manager := bm2\<rparr>, m1, - EIO, old1, new_blocks @ [block])
                  else Btrfs_sync_loop (st1\<lparr>block_manager := bm2\<rparr>) m1 qs old1 (new_blocks @ [block]))"
      unfolding old1_def m1_def st1_def using True al by (simp add: Let_def)
    have off1: "\<And>bm2 x. offset (heap (st1\<lparr>block_manager := bm2\<rparr>) x) = offset (heap st x)"
      by (simp add: st1_def)
    show ?thesis
    proof (cases "bwrite bm1 block (content (heap st q)) (path m1, offset (heap st q))")
      case (Inl e)
      then show ?thesis using step Cons.prems by simp
    next
      case (Inr a)
      then obtain bm2 ok where a: "a = (bm2, ok)" by (cases a)
      show ?thesis
      proof (cases ok)
        case False
        then have eq: "st' = st1\<lparr>block_manager := bm2\<rparr>" "m' = m1"
          using step Cons.prems Inr a by simp_all
        show ?thesis using eq off1 by (simp add: m1_def)
      next
        case True
        then have "Btrfs_sync_loop (st1\<lparr>block_manager := bm2\<rparr>) m1 qs old1 (new_blocks @ [block])
                    = Inr (st', m', r, old', new')"
          using step Cons.prems Inr a by simp
        from Cons.IH[OF this] have
          f: "m' = m1\<lparr>offset_to_block := offset_to_block m'\<rparr>"
          and o: "\<forall>x. offset (heap st' x) = offset (heap (st1\<lparr>block_manager := bm2\<rparr>) x)"
          by auto
        have "m' = m\<lparr>offset_to_block := offset_to_block m'\<rparr>"
          by (rule m_frame_trans[OF m1_def f])
        then show ?thesis using o off1 by simp
      qed
    qed
  qed
qed

lemma Btrfs_sync_pages_frame2:
  assumes "Btrfs_sync_pages st m pages = Inr (sa, ma, ret)"
  shows "host sa = host st \<and> failed_inodes_fd_map sa = failed_inodes_fd_map st \<and>
         ma = m\<lparr>offset_to_block := offset_to_block ma\<rparr> \<and>
         (\<forall>q. offset (heap sa q) = offset (heap st q))"
proof (cases "Btrfs_sync_loop st m pages [] []")
  case (Inl e)
  then show ?thesis using assms by (simp add: Btrfs_sync_pages_def)
next
  case (Inr a)
  then obtain s1 m1 r old new where a: "a = (s1, m1, r, old, new)" by (cases a) auto
  from Btrfs_sync_loop_frame[OF Inr[unfolded a]]
  have f1: "s1 = st\<lparr>block_manager := block_manager s1, heap := heap s1\<rparr>" by simp
  from Btrfs_sync_loop_frame2[OF Inr[unfolded a]]
  have f2: "m1 = m\<lparr>offset_to_block := offset_to_block m1\<rparr>"
    and f3: "\<forall>q. offset (heap s1 q) = offset (heap st q)" by simp_all
  have h1: "host s1 = host st" "failed_inodes_fd_map s1 = failed_inodes_fd_map st"
    by (subst f1, simp)+
  have e: "sa = s1\<lparr>block_manager := block_manager sa\<rparr>" "ma = m1"
    using assms Inr a by (auto simp: Btrfs_sync_pages_def Let_def)
  have "host sa = host st" "failed_inodes_fd_map sa = failed_inodes_fd_map st"
       "\<forall>q. offset (heap sa q) = offset (heap st q)"
    using h1 f3 by (subst e(1), simp)+
  then show ?thesis using f2 e(2) by simp
qed

lemma map_of_foldl_delete:
  "map_of (foldl (\<lambda>otp r. AList.delete (g r) otp) al rs) k =
     (if k \<in> g ` set rs then None else map_of al k)"
  by (induction rs arbitrary: al) (auto simp: delete_conv')

lemma host_add_fds_to_notify [simp]: "host (add_fds_to_notify st ino) = host st"
  by (simp add: add_fds_to_notify_def Let_def)

lemma host_mark_fd_notified [simp]: "host (mark_fd_notified st fd ino) = host st"
  by (simp add: mark_fd_notified_def split: option.splits)

text \<open>
  C2. Under the btrfs policy, an \<open>on_fsync\<close> by a descriptor that is not owed a
  notification, whose \<open>sync_pages\<close> logs a failed block write, with the metadata record of
  the inode on disk (and the pages of the inode filed under their own offsets): the call
  returns \<open>-EIO\<close>; \<open>size\<close>, \<open>atime\<close>, \<open>mtime\<close> and \<open>offset_to_block\<close> of the inode are those
  of the on-disk record; the metadata files are as they were before the call; and
  \<open>offset_to_page\<close> has lost exactly the pages that were dirty at entry.
\<close>

theorem Btrfs_on_fsync_reverts:
  assumes owed: "\<not> should_notify_fd st fd ino"
    and sp: "Btrfs_sync_pages st m (get_dirty_pages st m) = Inr (st1, m1, ret)"
    and fail: "\<exists>e\<in>set (drop (length (bwrite_log (block_manager st))) (bwrite_log (block_manager st1))).
                 \<not> bio_success e"
    and disk: "map_of (host st) (realpath m) = Some f"
    and dist: "distinct (map fst (offset_to_page m))"
    and offs: "\<forall>(k, r)\<in>set (offset_to_page m). offset (heap st r) = k"
  shows "\<exists>st' m'. Btrfs_on_fsync st fd ino m = Inr (st', m', - EIO) \<and>
           size_mi m' = meta_size (meta f) \<and> atime m' = meta_atime (meta f) \<and>
           mtime m' = meta_mtime (meta f) \<and>
           offset_to_block m' = meta_offset_to_block (meta f) \<and>
           host st' = host st \<and>
           (\<forall>k r. map_of (offset_to_page m) k = Some r \<longrightarrow>
              map_of (offset_to_page m') k = (if flag_dirty (heap st r) then None else Some r))"
proof -
  from Btrfs_sync_pages_frame[OF sp] obtain lg where
    lg: "bwrite_log (block_manager st1) = bwrite_log (block_manager st) @ lg"
    and rv: "ret = (if \<forall>e\<in>set lg. bio_success e then 0 else - EIO)"
    by blast
  have ret: "ret = - EIO" using fail lg rv by auto
  have ne: "ret \<noteq> 0" using ret by (simp add: EIO_def)
  from Btrfs_sync_pages_frame2[OF sp] have
    h: "host st1 = host st"
    and mf: "m1 = m\<lparr>offset_to_block := offset_to_block m1\<rparr>"
    and off: "\<forall>q. offset (heap st1 q) = offset (heap st q)"
    by simp_all
  have rp: "realpath m1 = realpath m" "offset_to_page m1 = offset_to_page m"
    by (subst mf, simp)+
  define m3 where "m3 = m1\<lparr>size_mi := meta_size (meta f), atime := meta_atime (meta f),
                          mtime := meta_mtime (meta f),
                          offset_to_block := meta_offset_to_block (meta f),
                          offset_to_page :=
                            foldl (\<lambda>otp r. AList.delete (offset (heap st1 r)) otp)
                              (offset_to_page m1) (get_dirty_pages st m)\<rparr>"
  define st3 where "st3 = mark_fd_notified (add_fds_to_notify st1 ino) fd ino"
  have res: "Btrfs_on_fsync st fd ino m = Inr (st3, m3, - EIO)"
    unfolding m3_def st3_def using owed sp ne ret disk h rp
    by (simp add: Btrfs_on_fsync_def Let_def)
  have ev: "\<forall>k r. map_of (offset_to_page m) k = Some r \<longrightarrow>
              map_of (offset_to_page m3) k = (if flag_dirty (heap st r) then None else Some r)"
  proof (intro allI impI)
    fix k r assume kr: "map_of (offset_to_page m) k = Some r"
    then have mem: "(k, r) \<in> set (offset_to_page m)" by (rule map_of_SomeD)
    then have ok: "offset (heap st r) = k" using offs by auto
    have m3p: "map_of (offset_to_page m3) k =
        (if k \<in> (\<lambda>r. offset (heap st1 r)) ` set (get_dirty_pages st m) then None
         else map_of (offset_to_page m) k)"
      by (simp add: m3_def map_of_foldl_delete rp)
    show "map_of (offset_to_page m3) k = (if flag_dirty (heap st r) then None else Some r)"
    proof (cases "flag_dirty (heap st r)")
      case True
      then have "r \<in> set (get_dirty_pages st m)" using mem by (force simp: get_dirty_pages_def)
      then have "k \<in> (\<lambda>r. offset (heap st1 r)) ` set (get_dirty_pages st m)"
        using ok off by force
      then show ?thesis using m3p True by simp
    next
      case False
      have "k \<notin> (\<lambda>r. offset (heap st1 r)) ` set (get_dirty_pages st m)"
      proof
        assume "k \<in> (\<lambda>r. offset (heap st1 r)) ` set (get_dirty_pages st m)"
        then obtain r' where r': "r' \<in> set (get_dirty_pages st m)" "offset (heap st1 r') = k" by auto
        then have d: "flag_dirty (heap st r')" and "r' \<in> snd ` set (offset_to_page m)"
          by (auto simp: get_dirty_pages_def)
        then obtain k' where k': "(k', r') \<in> set (offset_to_page m)" by auto
        then have "offset (heap st r') = k'" using offs by auto
        then have "k' = k" using r'(2) off by simp
        then have "map_of (offset_to_page m) k = Some r'" using k' dist by simp
        then have "r' = r" using kr by simp
        then show False using d False by simp
      qed
      then show ?thesis using m3p kr False by simp
    qed
  qed
  have hs: "host st3 = host st" using h by (simp add: st3_def)
  have flds: "size_mi m3 = meta_size (meta f)" "atime m3 = meta_atime (meta f)"
      "mtime m3 = meta_mtime (meta f)" "offset_to_block m3 = meta_offset_to_block (meta f)"
    by (simp_all add: m3_def)
  show ?thesis using res flds hs ev by blast
qed

lemma get_dirty_pages_example: "get_dirty_pages (fs_written cls) minode_written = [0, 1]"
  by (simp add: get_dirty_pages_def fs_written_def minode_written_def)

lemma Btrfs_sync_pages_example:
  "\<exists>st1 m1. Btrfs_sync_pages (fs_written cls) minode_written [0, 1] = Inr (st1, m1, - EIO) \<and>
      map bio_success (bwrite_log (block_manager st1)) = [False] \<and>
      free_list (block_manager st1) = [0]"
  apply (simp add: Btrfs_sync_pages_def fs_written_def fs_opened_def fs_example_def CuttleFS_init_def
       minode_written_def minode_example_def alloc_block_def Let_def bm_example_def)
  apply (simp add: bwrite_def PAGE_SZ_def SECTOR_SZ_def
       upt_8 bwrite_sector_def next_def py_index_def pwrite_def Let_def)
  apply (simp add: dealloc_block_def EIO_def)
  done

theorem Btrfs_on_fsync_reverts_witness:
  "\<exists>st' m'. Btrfs_on_fsync (fs_written Btrfs) 4 1 minode_written = Inr (st', m', - EIO) \<and>
      size_mi m' = 0 \<and> offset_to_block m' = [] \<and>
      map_of (offset_to_page m') 0 = None \<and> map_of (offset_to_page m') 4096 = None \<and>
      host st' = host (fs_written Btrfs)"
proof -
  let ?st = "fs_written Btrfs"
  let ?f = "\<lparr>st_ino = 1,
           meta = \<lparr>meta_size = 0, meta_atime = 0, meta_mtime = 0, meta_offset_to_block = []\<rparr>\<rparr>"
  obtain st1 m1 where
    sp: "Btrfs_sync_pages ?st minode_written [0, 1] = Inr (st1, m1, - EIO)"
    and l: "map bio_success (bwrite_log (block_manager st1)) = [False]"
    using Btrfs_sync_pages_example[of Btrfs] by (elim exE conjE)
  have sp': "Btrfs_sync_pages ?st minode_written (get_dirty_pages ?st minode_written) = Inr (st1, m1, - EIO)"
    using sp by (simp add: get_dirty_pages_example)
  have l0: "bwrite_log (block_manager ?st) = []"
    by (simp add: fs_written_def fs_opened_def fs_example_def CuttleFS_init_def bm_example_def)
  have fail: "\<exists>e\<in>set (drop (length (bwrite_log (block_manager ?st))) (bwrite_log (block_manager st1))).
                 \<not> bio_success e"
    using l l0 by (cases "bwrite_log (block_manager st1)") auto
  have disk: "map_of (host ?st) (realpath minode_written) = Some ?f"
    by (simp add: fs_written_def fs_opened_def fs_example_def CuttleFS_init_def minode_written_def
        minode_example_def)
  have dist: "distinct (map fst (offset_to_page minode_written))"
    by (simp add: minode_written_def)
  have offs: "\<forall>(k, r)\<in>set (offset_to_page minode_written). offset (heap ?st r) = k"
    by (simp add: minode_written_def fs_written_def)
  have p0: "map_of (offset_to_page minode_written) 0 = Some 0" "flag_dirty (heap ?st 0)"
    and p1: "map_of (offset_to_page minode_written) 4096 = Some 1" "flag_dirty (heap ?st 1)"
    by (simp_all add: minode_written_def fs_written_def)
  from Btrfs_on_fsync_reverts[OF should_notify_example sp' fail disk dist offs]
  obtain st' m' where
    a: "Btrfs_on_fsync ?st 4 1 minode_written = Inr (st', m', - EIO)"
    and b: "size_mi m' = meta_size (meta ?f)" "offset_to_block m' = meta_offset_to_block (meta ?f)"
      "host st' = host ?st"
    and c: "\<forall>k r. map_of (offset_to_page minode_written) k = Some r \<longrightarrow>
              map_of (offset_to_page m') k = (if flag_dirty (heap ?st r) then None else Some r)"
    by blast
  have "map_of (offset_to_page m') 0 = None" "map_of (offset_to_page m') 4096 = None"
    using c p0 p1 by auto
  then show ?thesis using a b by auto
qed

lemma update_new_key: "map_of al k = None \<Longrightarrow> AList.update k v al = al @ [(k, v)]"
  by (induction al) (auto split: if_splits)

lemma read_frame_refl: "read_frame st m st m"
  by (auto simp: read_frame_def)

lemma read_frame_trans:
  assumes "read_frame st m st1 m1" and "read_frame st1 m1 st2 m2"
  shows "read_frame st m st2 m2"
proof -
  from assms(1) obtain new1 where
    a1: "st1 = st\<lparr>heap := heap st1, next_ref := next_ref st1\<rparr>"
    and a2: "m1 = m\<lparr>offset_to_page := offset_to_page m1\<rparr>"
    and a3: "next_ref st \<le> next_ref st1"
    and a4: "\<forall>q. q < next_ref st \<longrightarrow> heap st1 q = heap st q"
    and a5: "\<forall>q. next_ref st \<le> q \<and> q < next_ref st1 \<longrightarrow> \<not> flag_dirty (heap st1 q)"
    and a6: "offset_to_page m1 = offset_to_page m @ new1"
    and a7: "\<forall>(k, q)\<in>set new1. next_ref st \<le> q \<and> q < next_ref st1"
    unfolding read_frame_def by blast
  from assms(2) obtain new2 where
    b1: "st2 = st1\<lparr>heap := heap st2, next_ref := next_ref st2\<rparr>"
    and b2: "m2 = m1\<lparr>offset_to_page := offset_to_page m2\<rparr>"
    and b3: "next_ref st1 \<le> next_ref st2"
    and b4: "\<forall>q. q < next_ref st1 \<longrightarrow> heap st2 q = heap st1 q"
    and b5: "\<forall>q. next_ref st1 \<le> q \<and> q < next_ref st2 \<longrightarrow> \<not> flag_dirty (heap st2 q)"
    and b6: "offset_to_page m2 = offset_to_page m1 @ new2"
    and b7: "\<forall>(k, q)\<in>set new2. next_ref st1 \<le> q \<and> q < next_ref st2"
    unfolding read_frame_def by blast
  have c1: "st2 = st\<lparr>heap := heap st2, next_ref := next_ref st2\<rparr>"
    by (subst b1, subst a1, simp)
  have c2: "m2 = m\<lparr>offset_to_page := offset_to_page m2\<rparr>"
    by (subst b2, subst a2, simp)
  have c3: "next_ref st \<le> next_ref st2" using a3 b3 by simp
  have c4: "\<forall>q. q < next_ref st \<longrightarrow> heap st2 q = heap st q"
    using a3 a4 b4 by auto
  have c5: "\<forall>q. next_ref st \<le> q \<and> q < next_ref st2 \<longrightarrow> \<not> flag_dirty (heap st2 q)"
  proof (intro allI impI)
    fix q assume q: "next_ref st \<le> q \<and> q < next_ref st2"
    show "\<not> flag_dirty (heap st2 q)"
    proof (cases "q < next_ref st1")
      case True
      then show ?thesis using a5 b4 q by auto
    next
      case False
      then show ?thesis using b5 q by auto
    qed
  qed
  have c6: "offset_to_page m2 = offset_to_page m @ (new1 @ new2)" using a6 b6 by simp
  have c7: "\<forall>(k, q)\<in>set (new1 @ new2). next_ref st \<le> q \<and> q < next_ref st2"
    using a7 b7 a3 b3 by fastforce
  show ?thesis unfolding read_frame_def using c1 c2 c3 c4 c5 c6 c7 by blast
qed

lemma get_page_for_offset_frame:
  assumes "get_page_for_offset st m off = Inr (st', m', r)"
  shows "read_frame st m st' m'"
proof (cases "map_of (offset_to_page m) off")
  case (Some q)
  then have "st' = st" "m' = m" using assms
    by (auto simp: get_page_for_offset_def split: if_splits)
  then show ?thesis by (simp add: read_frame_refl)
next
  case None
  define pg where "pg = Page_init (inode m) off"
  have otp: "offset_to_page m' = offset_to_page m @ [(off, next_ref st)]"
    and mm: "m' = m\<lparr>offset_to_page := offset_to_page m'\<rparr>"
    and nr: "next_ref st' = next_ref st + 1"
    and hp: "\<exists>c. heap st' = (heap st)(next_ref st := pg\<lparr>content := c\<rparr>)"
    and ss: "st' = st\<lparr>heap := heap st', next_ref := next_ref st'\<rparr>"
    using assms None update_new_key[OF None]
    by (auto simp: get_page_for_offset_def Let_def pg_def Page_init_def
        split: if_splits option.splits sum.splits)
  from hp obtain c where hc: "heap st' = (heap st)(next_ref st := pg\<lparr>content := c\<rparr>)" by blast
  have c4: "\<forall>q. q < next_ref st \<longrightarrow> heap st' q = heap st q" using hc by simp
  have c5: "\<forall>q. next_ref st \<le> q \<and> q < next_ref st' \<longrightarrow> \<not> flag_dirty (heap st' q)"
    using hc nr by (auto simp: pg_def Page_init_def)
  have c7: "\<forall>(k, q)\<in>set [(off, next_ref st)]. next_ref st \<le> q \<and> q < next_ref st'"
    using nr by simp
  show ?thesis unfolding read_frame_def using ss mm nr c4 c5 otp c7 by auto
qed

lemma read_loop_frame:
  "read_loop fuel st m cur rem buf = Some (Inr (st', m', out)) \<Longrightarrow> read_frame st m st' m'"
proof (induction fuel arbitrary: st m cur rem buf)
  case 0
  then show ?case by (auto simp: read_frame_refl split: if_splits)
next
  case (Suc n)
  show ?case
  proof (cases "rem > 0")
    case False
    then show ?thesis using Suc.prems by (simp add: read_frame_refl)
  next
    case True
    show ?thesis
    proof (cases "get_page_for_offset st m (cur div int PAGE_SZ * int PAGE_SZ)")
      case (Inl e)
      then show ?thesis using Suc.prems True by (simp add: Let_def)
    next
      case (Inr a)
      then obtain st1 m1 r where a: "a = (st1, m1, r)" by (cases a) auto
      have f1: "read_frame st m st1 m1" using get_page_for_offset_frame Inr a by blast
      obtain cur' rem' buf' where "read_loop n st1 m1 cur' rem' buf' = Some (Inr (st', m', out))"
        using Suc.prems True Inr a by (simp add: Let_def)
      from Suc.IH[OF this] have "read_frame st1 m1 st' m'" .
      with f1 show ?thesis by (rule read_frame_trans)
    qed
  qed
qed


lemma state_frame3:
  "st0 = st\<lparr>page_cache := pc0\<rparr> \<Longrightarrow> st2 = st0\<lparr>heap := h, next_ref := n\<rparr> \<Longrightarrow>
   st' = st2\<lparr>page_cache := pc\<rparr> \<Longrightarrow>
   st' = st\<lparr>page_cache := pc, heap := h, next_ref := n\<rparr>"
  by simp

lemma minode_for_facts:
  assumes "minode_for st ino p rp = Inr (st0, m)"
  shows "map_of (page_cache st0) ino = Some m"
    and "st0 = st\<lparr>page_cache := page_cache st0\<rparr>"
    and "\<forall>i. i \<noteq> ino \<longrightarrow> map_of (page_cache st0) i = map_of (page_cache st) i"
  using assms
  by (auto simp: minode_for_def update_conv' split: option.splits sum.splits)

text \<open>
  C10. For every \<open>read(path, size, offset, fd)\<close> that returns, with \<open>m\<close> the inode of \<open>fd\<close>
  as cached, or as loaded from disk when it is not cached: afterwards the page cache holds
  for that inode an inode with the \<open>size\<close>, \<open>atime\<close>, \<open>mtime\<close> and \<open>offset_to_block\<close> of
  \<open>m\<close>; its \<open>offset_to_page\<close> is that of \<open>m\<close> followed by entries for \<open>Page\<close> objects
  created by this call, whose dirty flag is false; every \<open>Page\<close> object that existed
  before the call is unchanged, content and dirty flag; the other inodes of the page cache
  are unchanged; and nothing else of the state changes (block manager, fd tables, policy
  state and metadata files).
\<close>

theorem read_frame_effect:
  assumes rd: "read fuel st p sz off fd = Some (Inr (st', buf))"
    and fi: "map_of (fd_info_map st) fd = Some info"
    and mi: "minode_for st (inode_fd info) p (path_fd info) = Inr (st0, m)"
  shows "\<exists>m' new.
           map_of (page_cache st') (inode_fd info) = Some m' \<and>
           size_mi m' = size_mi m \<and> atime m' = atime m \<and> mtime m' = mtime m \<and>
           offset_to_block m' = offset_to_block m \<and>
           offset_to_page m' = offset_to_page m @ new \<and>
           (\<forall>(k, q)\<in>set new. next_ref st \<le> q \<and> q < next_ref st' \<and> \<not> flag_dirty (heap st' q)) \<and>
           (\<forall>q. q < next_ref st \<longrightarrow> heap st' q = heap st q) \<and>
           (\<forall>i. i \<noteq> inode_fd info \<longrightarrow> map_of (page_cache st') i = map_of (page_cache st) i) \<and>
           st' = st\<lparr>page_cache := page_cache st', heap := heap st', next_ref := next_ref st'\<rparr>"
proof -
  note mf = minode_for_facts[OF mi]
  have "\<exists>st2 m2. read_frame st0 m st2 m2 \<and>
          st' = st2\<lparr>page_cache := AList.update (inode_fd info) m2 (page_cache st2)\<rparr>"
  proof (cases "sz = 0 \<or> off \<ge> size_mi m")
    case True
    then have "st' = st0" using rd fi mi by (auto simp: read_def split: if_splits)
    moreover have "AList.update (inode_fd info) m (page_cache st0) = page_cache st0"
      using mf(1) by (simp add: update_triv)
    ultimately have "st' = st0\<lparr>page_cache := AList.update (inode_fd info) m (page_cache st0)\<rparr>"
      by simp
    then show ?thesis using read_frame_refl by blast
  next
    case False
    define sz1 where "sz1 = (if off + sz \<ge> size_mi m then size_mi m - off else sz)"
    have "\<exists>st2 m2. read_loop fuel st0 m off sz1 [] = Some (Inr (st2, m2, buf)) \<and>
            st' = st2\<lparr>page_cache := AList.update (inode_fd info) m2 (page_cache st2)\<rparr>"
      using rd fi mi False unfolding sz1_def
      by (auto simp: read_def Let_def split: option.splits sum.splits)
    then show ?thesis using read_loop_frame by blast
  qed
  then obtain st2 m2 where fr: "read_frame st0 m st2 m2"
    and st': "st' = st2\<lparr>page_cache := AList.update (inode_fd info) m2 (page_cache st2)\<rparr>"
    by blast
  from fr obtain new where
    a1: "st2 = st0\<lparr>heap := heap st2, next_ref := next_ref st2\<rparr>"
    and a2: "m2 = m\<lparr>offset_to_page := offset_to_page m2\<rparr>"
    and a4: "\<forall>q. q < next_ref st0 \<longrightarrow> heap st2 q = heap st0 q"
    and a5: "\<forall>q. next_ref st0 \<le> q \<and> q < next_ref st2 \<longrightarrow> \<not> flag_dirty (heap st2 q)"
    and a6: "offset_to_page m2 = offset_to_page m @ new"
    and a7: "\<forall>(k, q)\<in>set new. next_ref st0 \<le> q \<and> q < next_ref st2"
    unfolding read_frame_def by blast
  have n0: "next_ref st0 = next_ref st" "heap st0 = heap st" by (subst mf(2), simp)+
  have pc2: "page_cache st2 = page_cache st0" by (subst a1) simp
  have h': "heap st' = heap st2" "next_ref st' = next_ref st2"
    "page_cache st' = AList.update (inode_fd info) m2 (page_cache st0)"
    using st' pc2 by simp_all
  have c1: "map_of (page_cache st') (inode_fd info) = Some m2" using h'(3) by (simp add: update_conv')
  have c2: "size_mi m2 = size_mi m" "atime m2 = atime m" "mtime m2 = mtime m"
      "offset_to_block m2 = offset_to_block m"
    by (subst a2, simp)+
  have c3: "\<forall>(k, q)\<in>set new. next_ref st \<le> q \<and> q < next_ref st' \<and> \<not> flag_dirty (heap st' q)"
    using a7 a5 n0 h' by auto
  have c4: "\<forall>q. q < next_ref st \<longrightarrow> heap st' q = heap st q" using a4 n0 h' by simp
  have c5: "\<forall>i. i \<noteq> inode_fd info \<longrightarrow> map_of (page_cache st') i = map_of (page_cache st) i"
    using mf(3) h'(3) by (simp add: update_conv')
  have c6: "st' = st\<lparr>page_cache := page_cache st', heap := heap st', next_ref := next_ref st'\<rparr>"
    using state_frame3[OF mf(2) a1 st'] h' pc2 by simp
  show ?thesis using c1 c2 a6 c3 c4 c5 c6 by blast
qed

lemma open_remounted_example:
  "open_file (fs_remounted cls) ''/f'' flags_plain = Inr (fs_reopened cls, 4)"
  by (simp add: open_file_def fs_remounted_def CuttleFS_init_def flags_plain_def realpath_fs_def
      minode_for_def MemInode_init_def alloc_fd_def Let_def fs_reopened_def minode_remounted_def)

lemma read_remounted_example:
  "\<exists>st' m'. read 2 (fs_reopened cls) ''/f'' 8192 0 4 =
        Some (Inr (st', replicate 4096 (CHR ''a'') @ replicate 4096 (CHR ''a''))) \<and>
      map_of (page_cache st') 1 = Some m' \<and>
      offset_to_page m' = [(0, 0), (4096, 1)] \<and>
      \<not> flag_dirty (heap st' 0) \<and> \<not> flag_dirty (heap st' 1) \<and> next_ref st' = 2"
  by (simp add: read_def fs_reopened_def fs_remounted_def CuttleFS_init_def minode_for_def
      minode_remounted_def numeral_2_eq_2 get_page_for_offset_def Let_def PAGE_SZ_def Page_init_def
      bread_def pread_def bm_full_def slice_def)

theorem read_frame_effect_witness:
  "open_file (fs_remounted Ext4Ordered) ''/f'' flags_plain = Inr (fs_reopened Ext4Ordered, 4) \<and>
   (\<exists>st' m'. read 2 (fs_reopened Ext4Ordered) ''/f'' 8192 0 4 =
        Some (Inr (st', replicate 4096 (CHR ''a'') @ replicate 4096 (CHR ''a''))) \<and>
      map_of (page_cache st') 1 = Some m' \<and>
      size_mi m' = 8192 \<and> offset_to_block m' = [(0, 0), (4096, 1)] \<and>
      offset_to_page m' = [(0, 0), (4096, 1)] \<and>
      \<not> flag_dirty (heap st' 0) \<and> \<not> flag_dirty (heap st' 1) \<and>
      block_manager st' = bm_full)"
proof -
  let ?st = "fs_reopened Ext4Ordered"
  let ?info = "\<lparr>inode_fd = 1, path_fd = ''/src/f''\<rparr>"
  obtain st' m' where
    rd: "read 2 ?st ''/f'' 8192 0 4 =
        Some (Inr (st', replicate 4096 (CHR ''a'') @ replicate 4096 (CHR ''a'')))"
    and pc: "map_of (page_cache st') 1 = Some m'"
    and ev: "offset_to_page m' = [(0, 0), (4096, 1)]"
      "\<not> flag_dirty (heap st' 0)" "\<not> flag_dirty (heap st' 1)"
    using read_remounted_example[of Ext4Ordered] by (elim exE conjE)
  have fi: "map_of (fd_info_map ?st) 4 = Some ?info" by (simp add: fs_reopened_def)
  have mi: "minode_for ?st (inode_fd ?info) ''/f'' (path_fd ?info) = Inr (?st, minode_remounted)"
    by (simp add: minode_for_def fs_reopened_def)
  from read_frame_effect[OF rd fi mi] obtain m2 where
    a: "map_of (page_cache st') (inode_fd ?info) = Some m2"
    and b: "size_mi m2 = size_mi minode_remounted"
       "offset_to_block m2 = offset_to_block minode_remounted"
    and c: "st' = ?st\<lparr>page_cache := page_cache st', heap := heap st', next_ref := next_ref st'\<rparr>"
    by blast
  have "m2 = m'" using a pc by simp
  then have b': "size_mi m' = 8192" "offset_to_block m' = [(0, 0), (4096, 1)]"
    using b by (simp_all add: minode_remounted_def)
  have "block_manager st' = block_manager ?st" by (subst c) simp
  then have d: "block_manager st' = bm_full"
    by (simp add: fs_reopened_def fs_remounted_def CuttleFS_init_def)
  show ?thesis using open_remounted_example rd pc b' ev d by blast
qed

lemma open_tail_example: "open_file fs_tail ''/f'' flags_plain = Inr (tail_opened, 4)"
  by (simp add: open_file_def fs_tail_def CuttleFS_init_def flags_plain_def realpath_fs_def
      minode_for_def MemInode_init_def alloc_fd_def Let_def tail_opened_def minode_example_def)

lemma write_tail_example:
  "write tail_opened ''/f'' (replicate 8192 (CHR ''a'')) 0 4 1 = Inr (tail_written, 8192)"
  by (simp add: write_def tail_opened_def fs_tail_def CuttleFS_init_def minode_for_def
      write_loop.simps get_page_for_offset_def Let_def minode_example_def PAGE_SZ_def Page_init_def
      slice_def slice_assign_def tail_written_def minode_written_def)

lemma fsync_tail_example:
  "\<exists>B. fsync tail_written ''/f'' 0 4 = Inr (tail_failed B, - EIO) \<and> length B = 7680"
  apply (simp add: fsync_def on_fsync_def GenericFsync_on_fsync_def get_dirty_pages_def
       GenericFsync_sync_pages_def tail_written_def tail_opened_def fs_tail_def CuttleFS_init_def
       minode_written_def minode_example_def alloc_block_def Let_def bm_tail_def)
  apply (simp add: bwrite_def PAGE_SZ_def SECTOR_SZ_def
       upt_8 bwrite_sector_def next_def py_index_def pwrite_def Let_def)
  apply (simp add: alloc_block_def Let_def)
  apply (simp add: bwrite_def PAGE_SZ_def SECTOR_SZ_def
       upt_8 bwrite_sector_def next_def py_index_def pwrite_def Let_def)
  apply (simp add: sync_meta_def add_fds_to_notify_def should_notify_fd_def mark_fd_notified_def
       tail_failed_def tail_written_def tail_opened_def fs_tail_def CuttleFS_init_def
       minode_synced_def minode_written_def minode_example_def PAGE_SZ_def EIO_def Let_def)
  done


lemma rewrite_tail_example:
  "write (command_evict_clean_pages (tail_failed B)) ''/f'' ''Z'' 8000 4 2 = Inr (tail_rewritten B, 1)"
  by (simp add: write_def command_evict_clean_pages_def tail_failed_def tail_written_def tail_opened_def
      fs_tail_def CuttleFS_init_def minode_for_def
      write_loop.simps get_page_for_offset_def Let_def minode_synced_def minode_written_def
      minode_example_def PAGE_SZ_def Page_init_def bread_def
      slice_def tail_rewritten_def)

lemma read_loop_tail_example:
  assumes "length B = 7680"
  shows "read_loop fuel (tail_rewritten B) (minode_synced\<lparr>mtime := 2, offset_to_page := [(4096, 2)]\<rparr>)
           8000 1 [] = None"
proof (induction fuel)
  case 0
  show ?case by simp
next
  case (Suc n)
  have gp: "get_page_for_offset (tail_rewritten B)
              (minode_synced\<lparr>mtime := 2, offset_to_page := [(4096, 2)]\<rparr>) 4096 =
            Inr (tail_rewritten B, minode_synced\<lparr>mtime := 2, offset_to_page := [(4096, 2)]\<rparr>, 2)"
    by (simp add: get_page_for_offset_def PAGE_SZ_def)
  have c: "slice (content (heap (tail_rewritten B) 2)) 3904 3905 = []"
    using assms by (simp add: tail_rewritten_def slice_def slice_assign_def pread_def PAGE_SZ_def)
  show ?case using Suc gp c by (simp add: PAGE_SZ_def)
qed

lemma read_tail_example:
  assumes "length B = 7680"
  shows "read fuel (tail_rewritten B) ''/f'' 1 8000 4 = None"
proof -
  have fi: "map_of (fd_info_map (tail_rewritten B)) 4 = Some \<lparr>inode_fd = 1, path_fd = ''/src/f''\<rparr>"
    by (simp add: tail_rewritten_def tail_failed_def tail_written_def tail_opened_def)
  have mi: "minode_for (tail_rewritten B) 1 ''/f'' ''/src/f'' =
      Inr (tail_rewritten B, minode_synced\<lparr>mtime := 2, offset_to_page := [(4096, 2)]\<rparr>)"
    by (simp add: minode_for_def tail_rewritten_def)
  have sz: "size_mi (minode_synced\<lparr>mtime := 2, offset_to_page := [(4096, 2)]\<rparr>) = 8192"
    by (simp add: minode_synced_def minode_written_def)
  show ?thesis
    using read_loop_tail_example[OF assms, of fuel] by (simp add: read_def fi mi sz)
qed

text \<open>
  C7 (the code departs from the claim). The claim: after \<open>write(path, D, off, fd)\<close> has
  returned, \<open>read(path, |D|, off, fd)\<close> returns \<open>D\<close>. A page that \<open>_get_page_for_offset\<close>
  fills through \<open>bread\<close> holds only the bytes the backing file has at the block, and
  \<open>bwrite\<close> leaves the file short when the last sectors of its last block fail. On the
  ext4-ordered mount that fails sector 15 of \<open>/f\<close>: \<open>open\<close> gives descriptor 4; the write of
  \<open>b"a" * 8192\<close> at 0 returns 8192; \<open>fsync\<close> returns \<open>-EIO\<close>; after \<open>evict-clean-pages\<close> the
  write of \<open>b"Z"\<close> at 8000 returns 1; and then \<open>read("/f", 1, 8000, 4)\<close> does not return,
  whatever the number of iterations its loop is given.
\<close>

theorem read_after_write_short_page:
  "\<exists>s1 s2 s3 s5.
     open_file fs_tail ''/f'' flags_plain = Inr (s1, 4) \<and>
     write s1 ''/f'' (replicate 8192 (CHR ''a'')) 0 4 1 = Inr (s2, 8192) \<and>
     fsync s2 ''/f'' 0 4 = Inr (s3, - EIO) \<and>
     write (command_evict_clean_pages s3) ''/f'' ''Z'' 8000 4 2 = Inr (s5, 1) \<and>
     (\<forall>fuel. read fuel s5 ''/f'' 1 8000 4 = None)"
proof -
  obtain B where f: "fsync tail_written ''/f'' 0 4 = Inr (tail_failed B, - EIO)"
    and len: "length B = 7680"
    using fsync_tail_example by blast
  have "\<forall>fuel. read fuel (tail_rewritten B) ''/f'' 1 8000 4 = None"
    using read_tail_example[OF len] by blast
  with open_tail_example write_tail_example f rewrite_tail_example[of B]
  show ?thesis by blast
qed

lemma open_cow_example: "open_file fs_cow ''/f'' flags_plain = Inr (cow_opened, 4)"
  by (simp add: open_file_def fs_cow_def CuttleFS_init_def flags_plain_def realpath_fs_def
      minode_for_def MemInode_init_def alloc_fd_def Let_def cow_opened_def minode_example_def)

lemma write_cow_example: "write cow_opened ''/f'' ''a'' 0 4 1 = Inr (cow_written, 1)"
  by (simp add: write_def cow_opened_def fs_cow_def CuttleFS_init_def minode_for_def
      write_loop.simps get_page_for_offset_def Let_def minode_example_def PAGE_SZ_def Page_init_def
      slice_def slice_assign_def cow_written_def)

lemma fsync_cow_example: "\<exists>B. fsync cow_written ''/f'' 0 4 = Inr (cow_committed B, 0)"
  apply (simp add: fsync_def on_fsync_def Btrfs_on_fsync_def get_dirty_pages_def should_notify_fd_def
       Btrfs_sync_pages_def cow_written_def cow_opened_def fs_cow_def CuttleFS_init_def
       minode_example_def alloc_block_def Let_def bm_cow_def)
  apply (simp add: bwrite_def PAGE_SZ_def SECTOR_SZ_def
       upt_8 bwrite_sector_def next_def py_index_def pwrite_def Let_def)
  apply (simp add: sync_meta_def cow_committed_def cow_written_def cow_opened_def fs_cow_def
       CuttleFS_init_def minode_example_def PAGE_SZ_def Let_def)
  done

lemma truncate_cow_example: "truncate (cow_committed B) ''/f'' 0 = Inr (cow_truncated B, 0)"
  by (simp add: truncate_def realpath_fs_def minode_for_def dealloc_block_def Let_def
      cow_truncated_def cow_committed_def cow_written_def cow_opened_def fs_cow_def CuttleFS_init_def
      minode_example_def)

lemma rewrite_cow_example: "write (cow_truncated B) ''/f'' ''b'' 0 4 2 = Inr (cow_rewritten B, 1)"
  by (simp add: write_def minode_for_def
      write_loop.simps get_page_for_offset_def Let_def minode_example_def PAGE_SZ_def Page_init_def
      slice_def slice_assign_def cow_rewritten_def
      cow_truncated_def cow_committed_def cow_written_def cow_opened_def fs_cow_def CuttleFS_init_def)

lemma refsync_cow_example:
  "\<exists>s6 m. fsync (cow_rewritten B) ''/f'' 0 4 = Inr (s6, - EIO) \<and>
      map_of (page_cache s6) 1 = Some m \<and> offset_to_block m = [(0, 0)] \<and>
      free_list (block_manager s6) = [0] \<and> \<not> free_list_exclusive s6"
  apply (simp add: fsync_def on_fsync_def Btrfs_on_fsync_def get_dirty_pages_def should_notify_fd_def
       Btrfs_sync_pages_def cow_rewritten_def
       cow_truncated_def cow_committed_def cow_written_def cow_opened_def fs_cow_def CuttleFS_init_def
       minode_example_def alloc_block_def Let_def)
  apply (simp add: bwrite_def PAGE_SZ_def SECTOR_SZ_def
       upt_8 bwrite_sector_def next_def py_index_def pwrite_def Let_def)
  apply (simp add: dealloc_block_def add_fds_to_notify_def mark_fd_notified_def EIO_def
       free_list_exclusive_def Let_def)
  done

lemma free_list_exclusive_cow:
  "free_list_exclusive cow_opened \<and> free_list_exclusive cow_written \<and>
   free_list_exclusive (cow_committed B) \<and> free_list_exclusive (cow_truncated B) \<and>
   free_list_exclusive (cow_rewritten B)"
  by (simp add: free_list_exclusive_def cow_rewritten_def
       cow_truncated_def cow_committed_def cow_written_def cow_opened_def minode_example_def)

text \<open>
  C8 (the code departs from the claim). The claim: after every completed operation no block
  number is both in some inode's \<open>offset_to_block\<close> and in the \<open>free_list\<close>.
  \<open>truncate(path, 0)\<close> hands the blocks of the file to the \<open>free_list\<close> at once, while the
  metadata file still maps them, and the btrfs \<open>on_fsync\<close> reloads that file when a block
  write fails. On the btrfs mount that fails sector 0 of \<open>/f\<close> from its second write on:
  \<open>open\<close> gives descriptor 4; the write of \<open>b"a"\<close> returns 1; \<open>fsync\<close> returns 0 (block 0);
  \<open>truncate("/f", 0)\<close> returns 0; the write of \<open>b"b"\<close> returns 1, and exclusivity holds
  still; the second \<open>fsync\<close> returns \<open>-EIO\<close>, and then block 0 is mapped at offset 0 of the
  inode and is the one entry of the \<open>free_list\<close>.
\<close>

theorem free_list_exclusivity_broken:
  "\<exists>s1 s2 s3 s4 s5 s6 m.
     open_file fs_cow ''/f'' flags_plain = Inr (s1, 4) \<and>
     write s1 ''/f'' ''a'' 0 4 1 = Inr (s2, 1) \<and>
     fsync s2 ''/f'' 0 4 = Inr (s3, 0) \<and>
     truncate s3 ''/f'' 0 = Inr (s4, 0) \<and>
     write s4 ''/f'' ''b'' 0 4 2 = Inr (s5, 1) \<and>
     free_list_exclusive s5 \<and>
     fsync s5 ''/f'' 0 4 = Inr (s6, - EIO) \<and>
     map_of (page_cache s6) 1 = Some m \<and> offset_to_block m = [(0, 0)] \<and>
     free_list (block_manager s6) = [0] \<and> \<not> free_list_exclusive s6"
proof -
  obtain B where f: "fsync cow_written ''/f'' 0 4 = Inr (cow_committed B, 0)"
    using fsync_cow_example by blast
  obtain s6 m where g: "fsync (cow_rewritten B) ''/f'' 0 4 = Inr (s6, - EIO)"
      "map_of (page_cache s6) 1 = Some m" "offset_to_block m = [(0, 0)]"
      "free_list (block_manager s6) = [0]" "\<not> free_list_exclusive s6"
    using refsync_cow_example[of B] by blast
  have e: "free_list_exclusive (cow_rewritten B)" using free_list_exclusive_cow[of B] by blast
  show ?thesis
    using open_cow_example write_cow_example f truncate_cow_example[of B] rewrite_cow_example[of B]
      e g by blast
qed

end
